theory Spec2Isabelle
  imports Main "HOL-Library.Word"
begin

unbundle bit_operations_syntax

section \<open>Audio capture hooks of glc (glc/capture/audio_hook.c)\<close>

text \<open>
  A shallow embedding of \<^verbatim>\<open>src/glc/capture/audio_hook.c\<close> for an LP64 Linux target.
  Pointers, \<^verbatim>\<open>size_t\<close> and \<^verbatim>\<open>snd_pcm_uframes_t\<close> are 64-bit words, \<^verbatim>\<open>unsigned int\<close>
  and \<^verbatim>\<open>glc_flags_t\<close> are 32-bit words, return codes are integers. The C \<^verbatim>\<open>int\<close> fields
  that the source only ever sets to 0 or 1 and only tests for zero (\<^verbatim>\<open>fmt\<close>,
  \<^verbatim>\<open>initialized\<close>, \<^verbatim>\<open>complex\<close>, \<^verbatim>\<open>capture_running\<close>, \<^verbatim>\<open>capture_ready\<close>, \<^verbatim>\<open>started\<close>)
  are booleans.

  Every function is the sequential run of one call on the state it finds. Process memory
  is one flat byte store. A mutex or spinlock is a flag (held or free); a semaphore is
  its counter. A call that has to wait for another thread (a held lock, a semaphore at
  zero, \<^verbatim>\<open>capture_ready\<close> clear without allow-skip) does not return by itself: its value
  is \<open>None\<close>. The one place where the caller joins the capture thread
  (\<^verbatim>\<open>sem_post(capture_full); sem_wait(capture_finished)\<close> after clearing
  \<^verbatim>\<open>capture_running\<close>) is modelled with the thread's answer, \<open>worker_quit\<close>.
  \<^verbatim>\<open>malloc\<close> of the hook and of a stream record is taken to succeed (the source
  dereferences the result unchecked); the allocation of the scratch buffer, whose
  failure the source handles, is answered by the environment.
\<close>

subsection \<open>Machine types and constants\<close>

type_synonym addr = "64 word"
type_synonym size_t = "64 word"
type_synonym snd_pcm_uframes_t = "64 word"
type_synonym uint = "32 word"
type_synonym glc_flags_t = "32 word"
type_synonym byte = "8 word"
type_synonym memory = "addr \<Rightarrow> byte"

definition NULL :: addr where
  "NULL = 0"

text \<open>Error numbers of Linux \<^verbatim>\<open>errno.h\<close>.\<close>

definition EAGAIN :: int where "EAGAIN = 11"
definition ENOMEM :: int where "ENOMEM = 12"
definition EBUSY :: int where "EBUSY = 16"
definition EINVAL :: int where "EINVAL = 22"
definition ENOTSUP :: int where "ENOTSUP = 95"
definition EALREADY :: int where "EALREADY = 114"

text \<open>The two hook flags defined at the top of the source file.\<close>

definition AUDIO_HOOK_CAPTURING :: glc_flags_t where "AUDIO_HOOK_CAPTURING = 0x1"
definition AUDIO_HOOK_ALLOW_SKIP :: glc_flags_t where "AUDIO_HOOK_ALLOW_SKIP = 0x2"

text \<open>\<^verbatim>\<open>SND_PCM_ASYNC\<close> of \<^verbatim>\<open>alsa/pcm.h\<close>.\<close>

definition SND_PCM_ASYNC :: uint where "SND_PCM_ASYNC = 0x2"

text \<open>
  The audio format flags come from \<^verbatim>\<open>glc/common/glc.h\<close>, which is not part of the
  sources at hand: their values are a parameter of every function that uses them.
\<close>

record glc_h =
  GLC_AUDIO_INTERLEAVED :: glc_flags_t
  GLC_AUDIO_FORMAT_UNKNOWN :: glc_flags_t
  GLC_AUDIO_S16_LE :: glc_flags_t
  GLC_AUDIO_S24_LE :: glc_flags_t
  GLC_AUDIO_S32_LE :: glc_flags_t

datatype log_level = GLC_ERROR | GLC_WARNING | GLC_INFORMATION | GLC_DEBUG

datatype snd_pcm_format_t =
  SND_PCM_FORMAT_S16_LE | SND_PCM_FORMAT_S24_LE | SND_PCM_FORMAT_S32_LE
  | SND_PCM_FORMAT_OTHER int

datatype snd_pcm_access_t =
  SND_PCM_ACCESS_MMAP_INTERLEAVED | SND_PCM_ACCESS_MMAP_NONINTERLEAVED
  | SND_PCM_ACCESS_MMAP_COMPLEX | SND_PCM_ACCESS_RW_INTERLEAVED
  | SND_PCM_ACCESS_RW_NONINTERLEAVED

text \<open>
  What the getters of ALSA answer for a \<^verbatim>\<open>snd_pcm_hw_params_t\<close>: the return code
  (negative on failure) and the value stored through the out parameter.
\<close>

record snd_pcm_hw_params_t =
  get_format :: "int \<times> snd_pcm_format_t"
  get_rate :: "int \<times> uint"
  get_channels :: "int \<times> uint"
  get_period_size :: "int \<times> snd_pcm_uframes_t"
  get_access :: "int \<times> snd_pcm_access_t"

record snd_pcm_channel_area_t =
  addr :: addr
  first :: uint
  step :: uint

text \<open>An array of channel areas in application memory, read by index.\<close>

type_synonym areas = "nat \<Rightarrow> snd_pcm_channel_area_t"

subsection \<open>The stream and hook records\<close>

record audio_hook_stream_s =
  state_audio :: nat
  audio_i :: int
  pcm :: addr
  mode :: uint
  mmap_areas :: "areas option"
  frames :: snd_pcm_uframes_t
  offset :: snd_pcm_uframes_t
  channels :: uint
  rate :: uint
  flags :: glc_flags_t
  complex :: bool
  fmt :: bool
  initialized :: bool
  packet :: addr
  capture_thread :: nat
  capture_finished :: nat
  capture_running :: bool
  capture_empty :: nat
  capture_full :: nat
  write_mutex :: bool
  write_spinlock :: bool
  capture_ready :: bool
  capture_data :: addr
  capture_size :: size_t
  capture_data_size :: size_t
  capture_time :: "64 word"

text \<open>
  \<open>mmap_areas\<close> is \<open>None\<close> for the null pointer. \<open>packet\<close> is the buffer the packet
  context is bound to (\<open>NULL\<close> when there is none), \<open>capture_thread\<close> counts the threads
  created for the stream. The \<^verbatim>\<open>next\<close> link is the order of the list \<open>stream\<close> below.
\<close>

record audio_hook_s =
  hook_flags :: glc_flags_t
  to_buf :: addr
  started :: bool
  stream :: "audio_hook_stream_s list"

datatype message =
  AUDIO_FORMAT int glc_flags_t uint uint

text \<open>
  The hook together with what it points to: the log and the stream registry of
  \<^verbatim>\<open>glc_t\<close>, the messages written to the target buffer, and memory.
\<close>

record world =
  glc_log :: "(log_level \<times> string) list"
  audio_count :: nat
  written :: "message list"
  mem :: memory
  hook :: audio_hook_s

text \<open>What the environment answers during one call.\<close>

record env =
  now :: "64 word"
  alloc :: addr
  snd_pcm_frames_to_bytes :: "addr \<Rightarrow> 64 word \<Rightarrow> 64 word"
  snd_pcm_samples_to_bytes :: "addr \<Rightarrow> 64 word \<Rightarrow> 64 word"

definition strm :: "world \<Rightarrow> nat \<Rightarrow> audio_hook_stream_s" where
  "strm w i = stream (hook w) ! i"

definition upd :: "nat \<Rightarrow> (audio_hook_stream_s \<Rightarrow> audio_hook_stream_s) \<Rightarrow> world \<Rightarrow> world" where
  "upd i f w = w\<lparr>hook := (hook w)\<lparr>stream := (stream (hook w))[i := f (stream (hook w) ! i)]\<rparr>\<rparr>"

text \<open>\<^verbatim>\<open>glc_log\<close>: the level and the format string are recorded, the arguments are not.\<close>

definition glc_log_add :: "log_level \<Rightarrow> string \<Rightarrow> world \<Rightarrow> world" where
  "glc_log_add l msg w = w\<lparr>glc_log := glc_log w @ [(l, msg)]\<rparr>"

definition memcpy :: "memory \<Rightarrow> addr \<Rightarrow> addr \<Rightarrow> size_t \<Rightarrow> memory" where
  "memcpy m dst src n = (\<lambda>a. if a - dst < n then m (src + (a - dst)) else m a)"

subsection \<open>Public interface\<close>

definition zero_stream :: audio_hook_stream_s where
  "zero_stream = \<lparr>state_audio = 0, audio_i = 0, pcm = NULL, mode = 0, mmap_areas = None,
     frames = 0, offset = 0, channels = 0, rate = 0, flags = 0, complex = False,
     fmt = False, initialized = False, packet = NULL, capture_thread = 0,
     capture_finished = 0, capture_running = False, capture_empty = 0, capture_full = 0,
     write_mutex = False, write_spinlock = False, capture_ready = False,
     capture_data = NULL, capture_size = 0, capture_data_size = 0, capture_time = 0\<rparr>"

definition zero_hook :: audio_hook_s where
  "zero_hook = \<lparr>hook_flags = 0, to_buf = NULL, started = False, stream = []\<rparr>"

definition audio_hook_init :: "world \<Rightarrow> int \<times> world" where
  "audio_hook_init w = (0, w\<lparr>hook := zero_hook\<rparr>)"

definition audio_hook_set_buffer :: "world \<Rightarrow> addr \<Rightarrow> int \<times> world" where
  "audio_hook_set_buffer w buffer =
     (if to_buf (hook w) \<noteq> NULL then (EALREADY, w)
      else (0, w\<lparr>hook := (hook w)\<lparr>to_buf := buffer\<rparr>\<rparr>))"

definition audio_hook_allow_skip :: "world \<Rightarrow> bool \<Rightarrow> int \<times> world" where
  "audio_hook_allow_skip w allow_skip =
     (if allow_skip
      then (0, w\<lparr>hook := (hook w)\<lparr>hook_flags := hook_flags (hook w) OR AUDIO_HOOK_ALLOW_SKIP\<rparr>\<rparr>)
      else (0, w\<lparr>hook := (hook w)\<lparr>hook_flags := hook_flags (hook w) AND NOT AUDIO_HOOK_ALLOW_SKIP\<rparr>\<rparr>))"

text \<open>
  Modelled from the spec: \<^verbatim>\<open>glc_state_audio_new\<close> of \<^verbatim>\<open>glc/common/state.c\<close>, which is
  not part of the sources at hand. The spec calls the audio id a monotonically assigned
  identifier, allocated from the global state registry together with the state token:
  the registry counts the ids it has issued and issues the next one.
\<close>

definition glc_state_audio_new :: "world \<Rightarrow> nat \<Rightarrow> world" where
  "glc_state_audio_new w i =
     (let n = Suc (audio_count w)
      in upd i (\<lambda>s. s\<lparr>audio_i := int n, state_audio := n\<rparr>) (w\<lparr>audio_count := n\<rparr>))"

text \<open>
  What the capture thread does when it is woken with \<^verbatim>\<open>capture_running\<close> clear
  (\<^verbatim>\<open>audio_hook_thread\<close>): it takes the post of \<^verbatim>\<open>capture_full\<close>, clears
  \<^verbatim>\<open>capture_ready\<close>, leaves its loop and posts \<^verbatim>\<open>capture_finished\<close>.
\<close>

definition worker_quit :: "audio_hook_stream_s \<Rightarrow> audio_hook_stream_s" where
  "worker_quit s = s\<lparr>capture_full := capture_full s - 1, capture_ready := False,
     capture_finished := Suc (capture_finished s)\<rparr>"

definition audio_hook_stream_init :: "world \<Rightarrow> nat \<Rightarrow> int \<times> world" where
  "audio_hook_stream_init w i =
     (if \<not> fmt (strm w i) then (EINVAL, w)
      else
        let w1 = (if audio_i (strm w i) < 1 then glc_state_audio_new w i else w);
            w2 = glc_log_add GLC_INFORMATION ''%p: initializing stream %d'' w1;
            w3 = (if initialized (strm w2 i) then upd i (\<lambda>s. s\<lparr>packet := NULL\<rparr>) w2 else w2);
            w4 = upd i (\<lambda>s. s\<lparr>packet := to_buf (hook w3)\<rparr>) w3;
            w5 = w4\<lparr>written := written w4 @
                   [AUDIO_FORMAT (audio_i (strm w4 i)) (flags (strm w4 i))
                      (rate (strm w4 i)) (channels (strm w4 i))]\<rparr>;
            w6 = (if capture_running (strm w5 i)
                  then upd i (\<lambda>s.
                         let s1 = s\<lparr>capture_running := False\<rparr>;
                             s2 = s1\<lparr>capture_full := Suc (capture_full s1)\<rparr>;
                             s3 = worker_quit s2
                         in s3\<lparr>capture_finished := capture_finished s3 - 1\<rparr>) w5
                  else w5);
            w7 = upd i (\<lambda>s. s\<lparr>capture_running := True,
                                capture_thread := Suc (capture_thread s)\<rparr>) w6
        in (0, upd i (\<lambda>s. s\<lparr>initialized := True\<rparr>) w7))"

definition audio_hook_init_streams :: "world \<Rightarrow> int \<times> world" where
  "audio_hook_init_streams w =
     (if to_buf (hook w) = NULL then (EAGAIN, w)
      else if started (hook w) then (EALREADY, w)
      else
        let w1 = fold (\<lambda>i w. if fmt (strm w i) \<and> \<not> initialized (strm w i)
                              then snd (audio_hook_stream_init w i) else w)
                   [0..<length (stream (hook w))] w
        in (0, w1\<lparr>hook := (hook w1)\<lparr>started := True\<rparr>\<rparr>))"

definition audio_hook_start :: "world \<Rightarrow> int \<times> world" where
  "audio_hook_start w =
     (if to_buf (hook w) = NULL
      then (EAGAIN, glc_log_add GLC_ERROR ''target buffer not specified'' w)
      else
        let w1 = (if \<not> started (hook w) then snd (audio_hook_init_streams w) else w);
            w2 = (if hook_flags (hook w1) AND AUDIO_HOOK_CAPTURING \<noteq> 0
                  then glc_log_add GLC_WARNING ''capturing is already active'' w1
                  else glc_log_add GLC_INFORMATION ''starting capturing'' w1)
        in (0, w2\<lparr>hook := (hook w2)\<lparr>hook_flags := hook_flags (hook w2) OR AUDIO_HOOK_CAPTURING\<rparr>\<rparr>))"

definition audio_hook_stop :: "world \<Rightarrow> int \<times> world" where
  "audio_hook_stop w =
     (let w1 = (if hook_flags (hook w) AND AUDIO_HOOK_CAPTURING \<noteq> 0
                then glc_log_add GLC_INFORMATION ''stopping capturing'' w
                else glc_log_add GLC_WARNING ''capturing is already stopped'' w)
      in (0, w1\<lparr>hook := (hook w1)\<lparr>hook_flags := hook_flags (hook w1) AND NOT AUDIO_HOOK_CAPTURING\<rparr>\<rparr>))"

subsection \<open>Stream registry\<close>

fun find_stream :: "addr \<Rightarrow> audio_hook_stream_s list \<Rightarrow> nat option" where
  "find_stream p [] = None"
| "find_stream p (s # ss) = (if pcm s = p then Some 0 else map_option Suc (find_stream p ss))"

definition new_stream :: "addr \<Rightarrow> audio_hook_stream_s" where
  "new_stream p = zero_stream\<lparr>pcm := p, audio_i := 0, capture_finished := 0,
     capture_full := 0, capture_empty := 1\<rparr>"

text \<open>
  The stream found or created is returned as its position in the list; the return code
  of the source is always 0 and no caller reads it.
\<close>

definition audio_hook_get_stream_alsa :: "world \<Rightarrow> addr \<Rightarrow> world \<times> nat" where
  "audio_hook_get_stream_alsa w p =
     (case find_stream p (stream (hook w)) of
        Some i \<Rightarrow> (w, i)
      | None \<Rightarrow> (w\<lparr>hook := (hook w)\<lparr>stream := new_stream p # stream (hook w)\<rparr>\<rparr>, 0))"

subsection \<open>Destruction\<close>

datatype resource =
  Capture_finished | Capture_full | Capture_empty | Write_mutex | Write_spinlock
  | Capture_data addr | Packet | Stream_record

datatype release = Thread_join addr | Destroy addr resource | Free_hook

definition destroy_stream :: "audio_hook_stream_s \<Rightarrow> release list" where
  "destroy_stream del =
     (if capture_running del then [Thread_join (pcm del)] else []) @
     [Destroy (pcm del) Capture_finished, Destroy (pcm del) Capture_full,
      Destroy (pcm del) Capture_empty, Destroy (pcm del) Write_mutex,
      Destroy (pcm del) Write_spinlock] @
     (if capture_data del \<noteq> NULL then [Destroy (pcm del) (Capture_data (capture_data del))] else []) @
     (if initialized del then [Destroy (pcm del) Packet] else []) @
     [Destroy (pcm del) Stream_record]"

text \<open>
  \<^verbatim>\<open>audio_hook_destroy\<close> takes the hook pointer, \<open>None\<close> for the null pointer, and
  returns its code with everything it has released, in order.
\<close>

definition audio_hook_destroy :: "audio_hook_s option \<Rightarrow> int \<times> release list" where
  "audio_hook_destroy audio_hook =
     (case audio_hook of
        None \<Rightarrow> (EINVAL, [])
      | Some h \<Rightarrow> (0, concat (map destroy_stream (stream h)) @ [Free_hook]))"

subsection \<open>Format map\<close>

definition pcm_fmt_to_glc_fmt :: "glc_h \<Rightarrow> snd_pcm_format_t \<Rightarrow> glc_flags_t" where
  "pcm_fmt_to_glc_fmt K pcm_fmt =
     (case pcm_fmt of
        SND_PCM_FORMAT_S16_LE \<Rightarrow> GLC_AUDIO_S16_LE K
      | SND_PCM_FORMAT_S24_LE \<Rightarrow> GLC_AUDIO_S24_LE K
      | SND_PCM_FORMAT_S32_LE \<Rightarrow> GLC_AUDIO_S32_LE K
      | SND_PCM_FORMAT_OTHER _ \<Rightarrow> GLC_AUDIO_FORMAT_UNKNOWN K)"

subsection \<open>Locks, waiting for the capture thread, the scratch buffer\<close>

definition audio_hook_lock_write :: "world \<Rightarrow> nat \<Rightarrow> (int \<times> world) option" where
  "audio_hook_lock_write w i =
     (if mode (strm w i) AND SND_PCM_ASYNC \<noteq> 0
      then (if write_spinlock (strm w i) then None
            else Some (0, upd i (\<lambda>s. s\<lparr>write_spinlock := True\<rparr>) w))
      else (if write_mutex (strm w i) then None
            else Some (0, upd i (\<lambda>s. s\<lparr>write_mutex := True\<rparr>) w)))"

text \<open>
  Unlocking leaves the lock free and returns 0 whether or not the caller holds it, as
  glibc does for a default mutex and for a spinlock.
\<close>

definition audio_hook_unlock_write :: "world \<Rightarrow> nat \<Rightarrow> int \<times> world" where
  "audio_hook_unlock_write w i =
     (if mode (strm w i) AND SND_PCM_ASYNC \<noteq> 0
      then (0, upd i (\<lambda>s. s\<lparr>write_spinlock := False\<rparr>) w)
      else (0, upd i (\<lambda>s. s\<lparr>write_mutex := False\<rparr>) w))"

text \<open>
  The busy wait of the asynchronous mode. \<^verbatim>\<open>sched_yield\<close> changes nothing the loop
  reads, so a loop that is entered with \<^verbatim>\<open>capture_ready\<close> clear and skipping not
  allowed does not end by itself.
\<close>

partial_function (option) wait_capture_ready :: "world \<Rightarrow> nat \<Rightarrow> (int \<times> world) option" where
  "wait_capture_ready w i =
     (if capture_ready (strm w i) then Some (0, w)
      else if hook_flags (hook w) AND AUDIO_HOOK_ALLOW_SKIP \<noteq> 0
      then Some (EBUSY, glc_log_add GLC_WARNING ''dropped audio data, capture thread not ready'' w)
      else wait_capture_ready w i)"

declare wait_capture_ready.simps [code]

definition audio_hook_wait_for_thread :: "world \<Rightarrow> nat \<Rightarrow> (int \<times> world) option" where
  "audio_hook_wait_for_thread w i =
     (if mode (strm w i) AND SND_PCM_ASYNC \<noteq> 0 then wait_capture_ready w i
      else if capture_empty (strm w i) = 0 then None
      else Some (0, upd i (\<lambda>s. s\<lparr>capture_empty := capture_empty s - 1\<rparr>) w))"

text \<open>
  \<^verbatim>\<open>malloc\<close> and \<^verbatim>\<open>realloc\<close> return the address \<open>alloc e\<close>, \<open>NULL\<close> when they fail;
  a successful \<^verbatim>\<open>realloc\<close> carries the old contents over.
\<close>

definition audio_hook_set_data_size :: "env \<Rightarrow> world \<Rightarrow> nat \<Rightarrow> size_t \<Rightarrow> int \<times> world" where
  "audio_hook_set_data_size e w i sz =
     (let w1 = upd i (\<lambda>s. s\<lparr>capture_size := sz\<rparr>) w
      in if sz \<le> capture_data_size (strm w1 i) then (0, w1)
         else
           let old_size = capture_data_size (strm w1 i);
               old_data = capture_data (strm w1 i);
               w2 = upd i (\<lambda>s. s\<lparr>capture_data_size := sz\<rparr>) w1;
               w3 = (if old_data \<noteq> NULL
                     then upd i (\<lambda>s. s\<lparr>capture_data := alloc e\<rparr>)
                            (w2\<lparr>mem := (if alloc e = NULL then mem w2
                                         else memcpy (mem w2) (alloc e) old_data old_size)\<rparr>)
                     else upd i (\<lambda>s. s\<lparr>capture_data := alloc e\<rparr>) w2)
           in if capture_data (strm w3 i) = NULL then (ENOMEM, w3) else (0, w3))"

subsection \<open>Memory-mapped areas\<close>

definition audio_hook_alsa_mmap_pos :: "snd_pcm_channel_area_t \<Rightarrow> snd_pcm_uframes_t \<Rightarrow> addr" where
  "audio_hook_alsa_mmap_pos area off =
     (addr area + ucast (first area div 8)) + off * ucast (step area div 8)"

definition audio_hook_complex_to_interleaved ::
  "env \<Rightarrow> memory \<Rightarrow> audio_hook_stream_s \<Rightarrow> areas \<Rightarrow> snd_pcm_uframes_t \<Rightarrow> snd_pcm_uframes_t
     \<Rightarrow> addr \<Rightarrow> int \<times> memory" where
  "audio_hook_complex_to_interleaved e m strm_p ars off frms to =
     (let add = snd_pcm_frames_to_bytes e (pcm strm_p) 1;
          ssize = snd_pcm_samples_to_bytes e (pcm strm_p) 1
      in (0, fold (\<lambda>c m1.
                fst (fold (\<lambda>s (m2, off2).
                       (memcpy m2 (to + off2)
                          (audio_hook_alsa_mmap_pos (ars c) (off + of_nat s)) ssize,
                        off2 + add))
                     [0..<unat frms] (m1, add * of_nat c)))
             [0..<unat (channels strm_p)] m))"

subsection \<open>Producer entry points\<close>

definition audio_hook_alsa_open :: "world \<Rightarrow> addr \<Rightarrow> string \<Rightarrow> uint \<Rightarrow> int \<times> world" where
  "audio_hook_alsa_open w p name md =
     (let (w1, i) = audio_hook_get_stream_alsa w p;
          w2 = upd i (\<lambda>s. s\<lparr>mode := md\<rparr>) w1
      in (0, glc_log_add GLC_INFORMATION
                ''%p: opened device \"%s\" with mode is 0x%02x (async=%s, nonblock=%s)'' w2))"

definition audio_hook_alsa_close :: "world \<Rightarrow> addr \<Rightarrow> int \<times> world" where
  "audio_hook_alsa_close w p =
     (let (w1, i) = audio_hook_get_stream_alsa w p;
          w2 = glc_log_add GLC_INFORMATION ''%p: closing stream %d'' w1
      in (0, upd i (\<lambda>s. s\<lparr>fmt := False\<rparr>) w2))"

definition audio_hook_alsa_i ::
  "env \<Rightarrow> world \<Rightarrow> addr \<Rightarrow> addr \<Rightarrow> snd_pcm_uframes_t \<Rightarrow> (int \<times> world) option" where
  "audio_hook_alsa_i e w p buffer sz =
     (if hook_flags (hook w) AND AUDIO_HOOK_CAPTURING = 0 then Some (0, w)
      else
        let (w1, i) = audio_hook_get_stream_alsa w p
        in if \<not> initialized (strm w1 i) then Some (EINVAL, snd (audio_hook_unlock_write w1 i))
           else
             case audio_hook_lock_write w1 i of
               None \<Rightarrow> None
             | Some (r2, w2) \<Rightarrow>
                 if r2 \<noteq> 0 then Some (r2, w2)
                 else
                   (case audio_hook_wait_for_thread w2 i of
                      None \<Rightarrow> None
                    | Some (r3, w3) \<Rightarrow>
                        if r3 \<noteq> 0 then Some (r3, snd (audio_hook_unlock_write w3 i))
                        else
                          let (r4, w4) = audio_hook_set_data_size e w3 i
                                           (snd_pcm_frames_to_bytes e p sz)
                          in if r4 \<noteq> 0 then Some (r4, snd (audio_hook_unlock_write w4 i))
                             else
                               let w5 = upd i (\<lambda>s. s\<lparr>capture_time := now e\<rparr>) w4;
                                   w6 = w5\<lparr>mem := memcpy (mem w5) (capture_data (strm w5 i))
                                                   buffer (capture_size (strm w5 i))\<rparr>;
                                   w7 = upd i (\<lambda>s. s\<lparr>capture_full := Suc (capture_full s)\<rparr>) w6
                               in Some (r4, snd (audio_hook_unlock_write w7 i))))"

text \<open>\<open>bufs\<close> is the array of channel buffers, read by index.\<close>

definition audio_hook_alsa_n ::
  "glc_h \<Rightarrow> env \<Rightarrow> world \<Rightarrow> addr \<Rightarrow> (nat \<Rightarrow> addr) \<Rightarrow> snd_pcm_uframes_t \<Rightarrow> (int \<times> world) option" where
  "audio_hook_alsa_n K e w p bufs sz =
     (if hook_flags (hook w) AND AUDIO_HOOK_CAPTURING = 0 then Some (0, w)
      else
        let (w1, i) = audio_hook_get_stream_alsa w p
        in if \<not> initialized (strm w1 i) then Some (EINVAL, snd (audio_hook_unlock_write w1 i))
           else
             case audio_hook_lock_write w1 i of
               None \<Rightarrow> None
             | Some (r2, w2) \<Rightarrow>
                 if r2 \<noteq> 0 then Some (r2, w2)
                 else if flags (strm w2 i) AND GLC_AUDIO_INTERLEAVED K \<noteq> 0
                 then Some (EINVAL, snd (audio_hook_unlock_write
                        (glc_log_add GLC_ERROR
                           ''stream format (interleaved) incompatible with snd_pcm_writen()'' w2) i))
                 else
                   (case audio_hook_wait_for_thread w2 i of
                     None \<Rightarrow> None
                   | Some (r3, w3) \<Rightarrow>
                       if r3 \<noteq> 0 then Some (r3, snd (audio_hook_unlock_write w3 i))
                       else
                         let (r4, w4) = audio_hook_set_data_size e w3 i
                                          (snd_pcm_frames_to_bytes e p sz)
                         in if r4 \<noteq> 0 then Some (r4, snd (audio_hook_unlock_write w4 i))
                            else
                              let w5 = upd i (\<lambda>s. s\<lparr>capture_time := now e\<rparr>) w4;
                                  n = snd_pcm_samples_to_bytes e p sz;
                                  w6 = w5\<lparr>mem := fold (\<lambda>c m. memcpy m
                                                  (capture_data (strm w5 i) + of_nat c * n) (bufs c) n)
                                                [0..<unat (channels (strm w5 i))] (mem w5)\<rparr>;
                                  w7 = upd i (\<lambda>s. s\<lparr>capture_full := Suc (capture_full s)\<rparr>) w6
                              in Some (r4, snd (audio_hook_unlock_write w7 i))))"

definition audio_hook_alsa_mmap_begin ::
  "world \<Rightarrow> addr \<Rightarrow> areas option \<Rightarrow> snd_pcm_uframes_t \<Rightarrow> snd_pcm_uframes_t \<Rightarrow> (int \<times> world) option" where
  "audio_hook_alsa_mmap_begin w p ars off frms =
     (if hook_flags (hook w) AND AUDIO_HOOK_CAPTURING = 0 then Some (0, w)
      else
        let (w1, i) = audio_hook_get_stream_alsa w p
        in if \<not> initialized (strm w1 i) then Some (EINVAL, snd (audio_hook_unlock_write w1 i))
           else
             case audio_hook_lock_write w1 i of
               None \<Rightarrow> None
             | Some (r2, w2) \<Rightarrow>
                 if r2 \<noteq> 0 then Some (r2, w2)
                 else
                   let w3 = upd i (\<lambda>s. s\<lparr>mmap_areas := ars\<rparr>) w2;
                       w4 = upd i (\<lambda>s. s\<lparr>frames := frms\<rparr>) w3;
                       w5 = upd i (\<lambda>s. s\<lparr>offset := off\<rparr>) w4
                   in Some (0, snd (audio_hook_unlock_write w5 i)))"

text \<open>The three ways \<^verbatim>\<open>audio_hook_alsa_mmap_commit\<close> fills the scratch buffer.\<close>

definition mmap_commit_copy ::
  "glc_h \<Rightarrow> env \<Rightarrow> world \<Rightarrow> nat \<Rightarrow> areas \<Rightarrow> snd_pcm_uframes_t \<Rightarrow> snd_pcm_uframes_t \<Rightarrow> world" where
  "mmap_commit_copy K e w i ars off frms =
     (if flags (strm w i) AND GLC_AUDIO_INTERLEAVED K \<noteq> 0
      then w\<lparr>mem := memcpy (mem w) (capture_data (strm w i))
                      (audio_hook_alsa_mmap_pos (ars 0) off) (capture_size (strm w i))\<rparr>
      else if complex (strm w i)
      then w\<lparr>mem := snd (audio_hook_complex_to_interleaved e (mem w) (strm w i) ars off frms
                           (capture_data (strm w i)))\<rparr>
      else
        let n = snd_pcm_samples_to_bytes e (pcm (strm w i)) frms
        in w\<lparr>mem := fold (\<lambda>c m. memcpy m (capture_data (strm w i) + of_nat c * n)
                                 (audio_hook_alsa_mmap_pos (ars c) off) n)
                       [0..<unat (channels (strm w i))] (mem w)\<rparr>)"

definition audio_hook_alsa_mmap_commit ::
  "glc_h \<Rightarrow> env \<Rightarrow> world \<Rightarrow> addr \<Rightarrow> snd_pcm_uframes_t \<Rightarrow> snd_pcm_uframes_t \<Rightarrow> (int \<times> world) option" where
  "audio_hook_alsa_mmap_commit K e w p off frms =
     (if hook_flags (hook w) AND AUDIO_HOOK_CAPTURING = 0 then Some (0, w)
      else
        let (w1, i) = audio_hook_get_stream_alsa w p
        in case audio_hook_lock_write w1 i of
             None \<Rightarrow> None
           | Some (r2, w2) \<Rightarrow>
               if r2 \<noteq> 0 then Some (r2, w2)
               else if channels (strm w2 i) = 0 then Some (r2, snd (audio_hook_unlock_write w2 i))
               else
                 (case mmap_areas (strm w2 i) of
                   None \<Rightarrow> Some (EINVAL, glc_log_add GLC_WARNING
                                    ''snd_pcm_mmap_commit() before snd_pcm_mmap_begin()'' w2)
                 | Some ars \<Rightarrow>
                     let w3 = (if off \<noteq> offset (strm w2 i)
                               then glc_log_add GLC_WARNING ''offset=%lu != stream->offset=%lu'' w2
                               else w2)
                     in (case audio_hook_wait_for_thread w3 i of
                          None \<Rightarrow> None
                        | Some (r4, w4) \<Rightarrow>
                            if r4 \<noteq> 0 then Some (r4, snd (audio_hook_unlock_write w4 i))
                            else
                              let (r5, w5) = audio_hook_set_data_size e w4 i
                                               (snd_pcm_frames_to_bytes e p frms)
                              in if r5 \<noteq> 0 then Some (r5, snd (audio_hook_unlock_write w5 i))
                                 else
                                   let w6 = upd i (\<lambda>s. s\<lparr>capture_time := now e\<rparr>) w5;
                                       w7 = mmap_commit_copy K e w6 i ars off frms;
                                       w8 = upd i (\<lambda>s. s\<lparr>capture_full := Suc (capture_full s)\<rparr>) w7
                                   in Some (r5, snd (audio_hook_unlock_write w8 i)))))"

subsection \<open>Hardware parameters\<close>

text \<open>The label \<^verbatim>\<open>err\<close> of \<^verbatim>\<open>audio_hook_alsa_hw_params\<close>.\<close>

definition hw_params_err :: "world \<Rightarrow> nat \<Rightarrow> int \<Rightarrow> (int \<times> world) option" where
  "hw_params_err w i ret =
     Some (ret, snd (audio_hook_unlock_write
       (glc_log_add GLC_ERROR ''%p: can't extract hardware configuration: %s (%d)'' w) i))"

text \<open>The end of \<^verbatim>\<open>audio_hook_alsa_hw_params\<close>, once the access mode is accepted.\<close>

definition hw_params_done :: "world \<Rightarrow> nat \<Rightarrow> (int \<times> world) option" where
  "hw_params_done w i =
     (let w1 = glc_log_add GLC_DEBUG ''%p: %d channels, rate %d, flags 0x%02x'' w;
          w2 = upd i (\<lambda>s. s\<lparr>fmt := True\<rparr>) w1
      in if started (hook w2)
         then (let (r3, w3) = audio_hook_stream_init w2 i
               in if r3 \<noteq> 0 then hw_params_err w3 i r3
                  else Some (0, snd (audio_hook_unlock_write w3 i)))
         else Some (0, snd (audio_hook_unlock_write w2 i)))"

definition audio_hook_alsa_hw_params ::
  "glc_h \<Rightarrow> world \<Rightarrow> addr \<Rightarrow> snd_pcm_hw_params_t \<Rightarrow> (int \<times> world) option" where
  "audio_hook_alsa_hw_params K w p params =
     (let (w1, i) = audio_hook_get_stream_alsa w p
      in case audio_hook_lock_write w1 i of
           None \<Rightarrow> None
         | Some (r2, w2) \<Rightarrow>
             if r2 \<noteq> 0 then Some (r2, w2)
             else
               let w3 = glc_log_add GLC_DEBUG
                          ''%p: creating/updating configuration for stream %d'' w2
               in if fst (get_format params) < 0 then hw_params_err w3 i (fst (get_format params))
                  else
                    let w4 = upd i (\<lambda>s. s\<lparr>flags := 0\<rparr>) w3;
                        w5 = upd i (\<lambda>s. s\<lparr>flags := flags s OR
                                       pcm_fmt_to_glc_fmt K (snd (get_format params))\<rparr>) w4
                    in if flags (strm w5 i) AND GLC_AUDIO_FORMAT_UNKNOWN K \<noteq> 0
                       then hw_params_err
                              (glc_log_add GLC_ERROR ''%p: unsupported audio format 0x%02x'' w5)
                              i ENOTSUP
                       else if fst (get_rate params) < 0
                       then hw_params_err w5 i (fst (get_rate params))
                       else
                         let w6 = upd i (\<lambda>s. s\<lparr>rate := snd (get_rate params)\<rparr>) w5
                         in if fst (get_channels params) < 0
                            then hw_params_err w6 i (fst (get_channels params))
                            else
                              let w7 = upd i (\<lambda>s. s\<lparr>channels := snd (get_channels params)\<rparr>) w6
                              in if fst (get_period_size params) < 0
                                 then hw_params_err w7 i (fst (get_period_size params))
                                 else if fst (get_access params) < 0
                                 then hw_params_err w7 i (fst (get_access params))
                                 else if snd (get_access params) = SND_PCM_ACCESS_RW_INTERLEAVED
                                       \<or> snd (get_access params) = SND_PCM_ACCESS_MMAP_INTERLEAVED
                                 then hw_params_done
                                        (upd i (\<lambda>s. s\<lparr>flags := flags s OR GLC_AUDIO_INTERLEAVED K\<rparr>) w7) i
                                 else if snd (get_access params) = SND_PCM_ACCESS_MMAP_COMPLEX
                                 then hw_params_done
                                        (upd i (\<lambda>s. s\<lparr>complex := True\<rparr>)
                                          (upd i (\<lambda>s. s\<lparr>flags := flags s OR GLC_AUDIO_INTERLEAVED K\<rparr>) w7)) i
                                 else hw_params_err
                                        (glc_log_add GLC_ERROR ''%p: unsupported access mode 0x%02x'' w7)
                                        i ENOTSUP)"

subsection \<open>Notions used by the properties\<close>

text \<open>The write lock that \<^verbatim>\<open>audio_hook_lock_write\<close> would take is held.\<close>

definition write_lock_held :: "audio_hook_stream_s \<Rightarrow> bool" where
  "write_lock_held s =
     (if mode s AND SND_PCM_ASYNC \<noteq> 0 then write_spinlock s else write_mutex s)"

text \<open>
  Between two worlds nothing was handed to a capture thread or sent downstream: no
  \<^verbatim>\<open>capture_full\<close> was posted, memory (the scratch buffers with it) is as it was,
  and no message was written to the target buffer.
\<close>

definition emits_nothing :: "world \<Rightarrow> world \<Rightarrow> bool" where
  "emits_nothing w w' \<longleftrightarrow>
     map capture_full (stream (hook w')) = map capture_full (stream (hook w))
     \<and> mem w' = mem w \<and> written w' = written w"

text \<open>A run of \<^verbatim>\<open>audio_hook_set_buffer\<close> calls, with the code each one returns.\<close>

fun set_buffer_calls :: "world \<Rightarrow> addr list \<Rightarrow> int list \<times> world" where
  "set_buffer_calls w [] = ([], w)"
| "set_buffer_calls w (b # bs) =
     (let (r, w1) = audio_hook_set_buffer w b;
          (rs, w2) = set_buffer_calls w1 bs
      in (r # rs, w2))"

text \<open>
  The states the hook can get into: \<^verbatim>\<open>audio_hook_init\<close> followed by any calls of
  the interface that return.
\<close>

inductive reachable :: "world \<Rightarrow> bool" where
  init: "reachable (snd (audio_hook_init w))"
| set_buffer: "reachable w \<Longrightarrow> reachable (snd (audio_hook_set_buffer w b))"
| allow_skip: "reachable w \<Longrightarrow> reachable (snd (audio_hook_allow_skip w a))"
| start: "reachable w \<Longrightarrow> reachable (snd (audio_hook_start w))"
| stop: "reachable w \<Longrightarrow> reachable (snd (audio_hook_stop w))"
| alsa_open: "reachable w \<Longrightarrow> reachable (snd (audio_hook_alsa_open w p name md))"
| alsa_close: "reachable w \<Longrightarrow> reachable (snd (audio_hook_alsa_close w p))"
| hw_params:
    "reachable w \<Longrightarrow> audio_hook_alsa_hw_params K w p params = Some (r, w') \<Longrightarrow> reachable w'"
| alsa_i:
    "reachable w \<Longrightarrow> audio_hook_alsa_i e w p buffer sz = Some (r, w') \<Longrightarrow> reachable w'"
| alsa_n:
    "reachable w \<Longrightarrow> audio_hook_alsa_n K e w p bufs sz = Some (r, w') \<Longrightarrow> reachable w'"
| mmap_begin:
    "reachable w \<Longrightarrow> audio_hook_alsa_mmap_begin w p ars off frms = Some (r, w') \<Longrightarrow> reachable w'"
| mmap_commit:
    "reachable w \<Longrightarrow> audio_hook_alsa_mmap_commit K e w p off frms = Some (r, w') \<Longrightarrow> reachable w'"

text \<open>Areas are recorded on initialized streams only.\<close>

definition areas_recorded_ok :: "audio_hook_stream_s \<Rightarrow> bool" where
  "areas_recorded_ok s \<longleftrightarrow> initialized s \<or> mmap_areas s = None"

definition areas_inv :: "world \<Rightarrow> bool" where
  "areas_inv w \<longleftrightarrow> list_all areas_recorded_ok (stream (hook w))"

subsection \<open>Concrete states and inputs\<close>

text \<open>Flag values for \<^verbatim>\<open>glc.h\<close>, one bit each.\<close>

definition glc_h_values :: glc_h where
  "glc_h_values = \<lparr>GLC_AUDIO_INTERLEAVED = 0x1, GLC_AUDIO_FORMAT_UNKNOWN = 0x2,
     GLC_AUDIO_S16_LE = 0x4, GLC_AUDIO_S24_LE = 0x8, GLC_AUDIO_S32_LE = 0x10\<rparr>"

text \<open>Signed 16-bit stereo: two bytes a sample, four bytes a frame.\<close>

definition s16_stereo_env :: env where
  "s16_stereo_env = \<lparr>now = 7, alloc = 0x4000,
     snd_pcm_frames_to_bytes = (\<lambda>p n. n * 4), snd_pcm_samples_to_bytes = (\<lambda>p n. n * 2)\<rparr>"

definition no_memory_env :: env where
  "no_memory_env = s16_stereo_env\<lparr>alloc := NULL\<rparr>"

definition s16_stereo_params :: "snd_pcm_access_t \<Rightarrow> snd_pcm_hw_params_t" where
  "s16_stereo_params access = \<lparr>get_format = (0, SND_PCM_FORMAT_S16_LE), get_rate = (0, 44100),
     get_channels = (0, 2), get_period_size = (0, 1024), get_access = (0, access)\<rparr>"

definition fresh_world :: world where
  "fresh_world = \<lparr>glc_log = [], audio_count = 0, written = [], mem = (\<lambda>a. 0),
     hook = zero_hook\<rparr>"

text \<open>After \<^verbatim>\<open>audio_hook_init\<close>; then with a target buffer; then started.\<close>

definition idle_world :: world where
  "idle_world = snd (audio_hook_init fresh_world)"

definition bound_world :: world where
  "bound_world = snd (audio_hook_set_buffer idle_world 0x5000)"

definition capturing_world :: world where
  "capturing_world = snd (audio_hook_start bound_world)"

text \<open>Stream 1 configured for interleaved access on the started hook.\<close>

definition configured_world :: world where
  "configured_world =
     snd (the (audio_hook_alsa_hw_params glc_h_values capturing_world 1
                 (s16_stereo_params SND_PCM_ACCESS_RW_INTERLEAVED)))"

text \<open>
  Stream 1 refused before the start for its access mode, which leaves the channel count
  recorded and the stream without a format; then the hook is started.
\<close>

definition refused_world :: world where
  "refused_world =
     snd (audio_hook_start
       (snd (the (audio_hook_alsa_hw_params glc_h_values bound_world 1
                    (s16_stereo_params SND_PCM_ACCESS_MMAP_NONINTERLEAVED)))))"

text \<open>
  What \<^verbatim>\<open>audio_hook_alsa_mmap_commit\<close> leaves when it is called on stream 1 before
  any \<^verbatim>\<open>audio_hook_alsa_mmap_begin\<close>: on the configured stream, and on the refused one.
\<close>

definition leaked_world :: world where
  "leaked_world =
     snd (the (audio_hook_alsa_mmap_commit glc_h_values s16_stereo_env configured_world 1 0 4))"

definition refused_leaked_world :: world where
  "refused_leaked_world =
     snd (the (audio_hook_alsa_mmap_commit glc_h_values s16_stereo_env refused_world 1 0 4))"

text \<open>Two channel areas of two 16-bit samples each, and the memory behind them.\<close>

definition two_areas :: areas where
  "two_areas c = (if c = 0 then \<lparr>addr = 0x1000, first = 0, step = 16\<rparr>
                  else \<lparr>addr = 0x2000, first = 0, step = 16\<rparr>)"

definition two_frames_mem :: memory where
  "two_frames_mem = (\<lambda>a. 0)(0x1000 := 0xA0, 0x1001 := 0xA1, 0x1002 := 0xA2, 0x1003 := 0xA3,
     0x2000 := 0xB0, 0x2001 := 0xB1, 0x2002 := 0xB2, 0x2003 := 0xB3)"

definition stereo_stream :: audio_hook_stream_s where
  "stereo_stream = (new_stream 1)\<lparr>channels := 2\<rparr>"

text \<open>
  Stream 1 configured for complex access on the started hook, with the samples of the
  application in memory; then what \<^verbatim>\<open>audio_hook_alsa_mmap_begin\<close> and
  \<^verbatim>\<open>audio_hook_alsa_mmap_commit\<close> of two frames leave.
\<close>

definition complex_world :: world where
  "complex_world =
     (snd (the (audio_hook_alsa_hw_params glc_h_values capturing_world 1
                  (s16_stereo_params SND_PCM_ACCESS_MMAP_COMPLEX))))\<lparr>mem := two_frames_mem\<rparr>"

definition complex_committed_world :: world where
  "complex_committed_world =
     snd (the (audio_hook_alsa_mmap_commit glc_h_values s16_stereo_env
       (snd (the (audio_hook_alsa_mmap_begin complex_world 1 (Some two_areas) 0 2))) 1 0 2))"

text \<open>
  The same stream after a second \<^verbatim>\<open>audio_hook_alsa_hw_params\<close>, refused for its
  access mode, and the two frames committed then.
\<close>

definition reconfigured_world :: world where
  "reconfigured_world =
     snd (the (audio_hook_alsa_hw_params glc_h_values complex_world 1
                  (s16_stereo_params SND_PCM_ACCESS_MMAP_NONINTERLEAVED)))"

definition reconfigured_committed_world :: world where
  "reconfigured_committed_world =
     snd (the (audio_hook_alsa_mmap_commit glc_h_values s16_stereo_env
       (snd (the (audio_hook_alsa_mmap_begin reconfigured_world 1 (Some two_areas) 0 2))) 1 0 2))"

section \<open>Properties\<close>

subsection \<open>General facts\<close>

lemma capturing_or:
  "(f :: glc_flags_t) AND AUDIO_HOOK_CAPTURING \<noteq> 0 \<Longrightarrow> f OR AUDIO_HOOK_CAPTURING = f"
  by (simp add: AUDIO_HOOK_CAPTURING_def and_one_eq or_one_eq odd_iff_mod_2_eq_one)

lemma hook_upd [simp]:
  "hook_flags (hook (upd i f w)) = hook_flags (hook w)"
  "to_buf (hook (upd i f w)) = to_buf (hook w)"
  "started (hook (upd i f w)) = started (hook w)"
  "length (stream (hook (upd i f w))) = length (stream (hook w))"
  by (simp_all add: upd_def)

lemma world_upd [simp]:
  "glc_log (upd i f w) = glc_log w"
  "audio_count (upd i f w) = audio_count w"
  "written (upd i f w) = written w"
  "mem (upd i f w) = mem w"
  by (simp_all add: upd_def)

lemma strm_upd [simp]:
  "i < length (stream (hook w)) \<Longrightarrow> strm (upd i f w) i = f (strm w i)"
  by (simp add: upd_def strm_def)

lemma strm_fields [simp]:
  "strm (w\<lparr>mem := m\<rparr>) i = strm w i"
  "strm (w\<lparr>written := ms\<rparr>) i = strm w i"
  "strm (w\<lparr>audio_count := n\<rparr>) i = strm w i"
  "strm (w\<lparr>glc_log := l\<rparr>) i = strm w i"
  by (simp_all add: strm_def)

lemma upd_id: "f (strm w i) = strm w i \<Longrightarrow> upd i f w = w"
  by (simp add: upd_def strm_def)

lemma upd_upd [simp]: "upd i f (upd i g w) = upd i (f \<circ> g) w"
  by (cases "i < length (stream (hook w))") (simp_all add: upd_def list_update_beyond)

lemma log_add [simp]:
  "hook (glc_log_add l m w) = hook w"
  "strm (glc_log_add l m w) i = strm w i"
  "audio_count (glc_log_add l m w) = audio_count w"
  "written (glc_log_add l m w) = written w"
  "mem (glc_log_add l m w) = mem w"
  by (simp_all add: glc_log_add_def strm_def)

lemma find_stream_Some:
  "find_stream p ss = Some i \<Longrightarrow> i < length ss \<and> pcm (ss ! i) = p"
  by (induction ss arbitrary: i) (auto split: if_splits)

lemma get_stream_found:
  "find_stream p (stream (hook w)) = Some i \<Longrightarrow> audio_hook_get_stream_alsa w p = (w, i)"
  by (simp add: audio_hook_get_stream_alsa_def)

lemma get_stream_props:
  assumes "audio_hook_get_stream_alsa w p = (w1, i)"
  shows "i < length (stream (hook w1))" and "pcm (strm w1 i) = p"
    and "hook_flags (hook w1) = hook_flags (hook w)" and "started (hook w1) = started (hook w)"
    and "to_buf (hook w1) = to_buf (hook w)"
  using assms
  by (auto simp: audio_hook_get_stream_alsa_def strm_def new_stream_def
           dest: find_stream_Some split: option.splits)

lemma capturing_world_eq:
  "capturing_world = \<lparr>glc_log = [(GLC_INFORMATION, ''starting capturing'')], audio_count = 0,
     written = [], mem = (\<lambda>a. 0),
     hook = \<lparr>hook_flags = 1, to_buf = 0x5000, started = True, stream = []\<rparr>\<rparr>"
  by (simp add: capturing_world_def bound_world_def idle_world_def fresh_world_def
      audio_hook_start_def audio_hook_init_streams_def audio_hook_set_buffer_def
      audio_hook_init_def zero_hook_def NULL_def glc_log_add_def AUDIO_HOOK_CAPTURING_def)

lemma upd_log_commute: "upd i f (glc_log_add l m w) = glc_log_add l m (upd i f w)"
  by (simp add: upd_def glc_log_add_def)

lemma lock_write_free:
  assumes "i < length (stream (hook w))" and "\<not> write_lock_held (strm w i)"
  obtains w2 where "audio_hook_lock_write w i = Some (0, w2)"
    and "snd (audio_hook_unlock_write w2 i) = w"
    and "\<And>l m. snd (audio_hook_unlock_write (glc_log_add l m w2) i) = glc_log_add l m w"
    and "w2 = upd i (\<lambda>s. s\<lparr>write_mutex := True\<rparr>) w \<or> w2 = upd i (\<lambda>s. s\<lparr>write_spinlock := True\<rparr>) w"
proof (cases "mode (strm w i) AND SND_PCM_ASYNC \<noteq> 0")
  case True
  let ?w2 = "upd i (\<lambda>s. s\<lparr>write_spinlock := True\<rparr>) w"
  have free: "\<not> write_spinlock (strm w i)"
    using assms(2) True by (simp add: write_lock_held_def)
  show ?thesis
  proof (rule that [of ?w2])
    show "audio_hook_lock_write w i = Some (0, ?w2)"
      using True free by (simp add: audio_hook_lock_write_def)
    show "snd (audio_hook_unlock_write ?w2 i) = w"
      using True assms(1) free by (simp add: audio_hook_unlock_write_def upd_id comp_def)
    show "snd (audio_hook_unlock_write (glc_log_add l m ?w2) i) = glc_log_add l m w" for l m
      using True assms(1) free
      by (simp add: audio_hook_unlock_write_def upd_log_commute upd_id comp_def)
    show "?w2 = upd i (\<lambda>s. s\<lparr>write_mutex := True\<rparr>) w \<or> ?w2 = upd i (\<lambda>s. s\<lparr>write_spinlock := True\<rparr>) w"
      by simp
  qed
next
  case False
  let ?w2 = "upd i (\<lambda>s. s\<lparr>write_mutex := True\<rparr>) w"
  have free: "\<not> write_mutex (strm w i)"
    using assms(2) False by (simp add: write_lock_held_def)
  show ?thesis
  proof (rule that [of ?w2])
    show "audio_hook_lock_write w i = Some (0, ?w2)"
      using False free by (simp add: audio_hook_lock_write_def)
    show "snd (audio_hook_unlock_write ?w2 i) = w"
      using False assms(1) free by (simp add: audio_hook_unlock_write_def upd_id comp_def)
    show "snd (audio_hook_unlock_write (glc_log_add l m ?w2) i) = glc_log_add l m w" for l m
      using False assms(1) free
      by (simp add: audio_hook_unlock_write_def upd_log_commute upd_id comp_def)
    show "?w2 = upd i (\<lambda>s. s\<lparr>write_mutex := True\<rparr>) w \<or> ?w2 = upd i (\<lambda>s. s\<lparr>write_spinlock := True\<rparr>) w"
      by simp
  qed
qed

lemma idle_world_eq:
  "idle_world = \<lparr>glc_log = [], audio_count = 0, written = [], mem = (\<lambda>a. 0),
     hook = \<lparr>hook_flags = 0, to_buf = 0, started = False, stream = []\<rparr>\<rparr>"
  by (simp add: idle_world_def fresh_world_def audio_hook_init_def zero_hook_def NULL_def)

lemma idle_configured:
  "audio_hook_alsa_hw_params glc_h_values idle_world 1 (s16_stereo_params SND_PCM_ACCESS_RW_INTERLEAVED)
   = Some (0, \<lparr>glc_log =
         [(GLC_DEBUG, ''%p: creating/updating configuration for stream %d''),
          (GLC_DEBUG, ''%p: %d channels, rate %d, flags 0x%02x'')],
         audio_count = 0, written = [], mem = (\<lambda>a. 0),
         hook =
           \<lparr>hook_flags = 0, to_buf = 0, started = False,
              stream =
                [\<lparr>state_audio = 0, audio_i = 0, pcm = 1, mode = 0,
                    mmap_areas = None, frames = 0, offset = 0, channels = 2,
                    rate = 44100, flags = 5, complex = False, fmt = True,
                    initialized = False, packet = 0, capture_thread = 0,
                    capture_finished = 0, capture_running = False,
                    capture_empty = 1, capture_full = 0,
                    write_mutex = False, write_spinlock = False,
                    capture_ready = False, capture_data = 0,
                    capture_size = 0, capture_data_size = 0,
                    capture_time = 0\<rparr>]\<rparr>\<rparr>)"
  by (simp add: idle_world_eq audio_hook_alsa_hw_params_def
      audio_hook_get_stream_alsa_def audio_hook_lock_write_def audio_hook_unlock_write_def
      hw_params_done_def hw_params_err_def
      new_stream_def zero_stream_def s16_stereo_params_def glc_h_values_def pcm_fmt_to_glc_fmt_def
      strm_def upd_def glc_log_add_def NULL_def SND_PCM_ASYNC_def Let_def)

lemma hw_params_capturing:
  "audio_hook_alsa_hw_params glc_h_values capturing_world 1
     (s16_stereo_params SND_PCM_ACCESS_RW_INTERLEAVED) =
   Some (0, \<lparr>glc_log =
    [(GLC_INFORMATION, ''starting capturing''),
     (GLC_DEBUG, ''%p: creating/updating configuration for stream %d''),
     (GLC_DEBUG, ''%p: %d channels, rate %d, flags 0x%02x''),
     (GLC_INFORMATION, ''%p: initializing stream %d'')],
    audio_count = 1, written = [AUDIO_FORMAT 1 5 44100 2], mem = (\<lambda>a. 0),
    hook =
      \<lparr>hook_flags = 1, to_buf = 0x5000, started = True,
         stream =
           [\<lparr>state_audio = 1, audio_i = 1, pcm = 1, mode = 0,
               mmap_areas = None, frames = 0, offset = 0, channels = 2,
               rate = 44100, flags = 5, complex = False, fmt = True,
               initialized = True, packet = 0x5000, capture_thread = 1,
               capture_finished = 0, capture_running = True,
               capture_empty = 1, capture_full = 0, write_mutex = False,
               write_spinlock = False, capture_ready = False,
               capture_data = 0, capture_size = 0, capture_data_size = 0,
               capture_time = 0\<rparr>]\<rparr>\<rparr>)"
  by (simp add: capturing_world_eq audio_hook_alsa_hw_params_def
      audio_hook_get_stream_alsa_def audio_hook_lock_write_def audio_hook_unlock_write_def
      hw_params_done_def hw_params_err_def audio_hook_stream_init_def glc_state_audio_new_def
      new_stream_def zero_stream_def s16_stereo_params_def glc_h_values_def pcm_fmt_to_glc_fmt_def
      strm_def upd_def glc_log_add_def NULL_def SND_PCM_ASYNC_def Let_def)

lemma configured_world_eq:
  "configured_world = \<lparr>glc_log =
    [(GLC_INFORMATION, ''starting capturing''),
     (GLC_DEBUG, ''%p: creating/updating configuration for stream %d''),
     (GLC_DEBUG, ''%p: %d channels, rate %d, flags 0x%02x''),
     (GLC_INFORMATION, ''%p: initializing stream %d'')],
    audio_count = 1, written = [AUDIO_FORMAT 1 5 44100 2], mem = (\<lambda>a. 0),
    hook =
      \<lparr>hook_flags = 1, to_buf = 0x5000, started = True,
         stream =
           [\<lparr>state_audio = 1, audio_i = 1, pcm = 1, mode = 0,
               mmap_areas = None, frames = 0, offset = 0, channels = 2,
               rate = 44100, flags = 5, complex = False, fmt = True,
               initialized = True, packet = 0x5000, capture_thread = 1,
               capture_finished = 0, capture_running = True,
               capture_empty = 1, capture_full = 0, write_mutex = False,
               write_spinlock = False, capture_ready = False,
               capture_data = 0, capture_size = 0, capture_data_size = 0,
               capture_time = 0\<rparr>]\<rparr>\<rparr>"
  by (simp add: configured_world_def hw_params_capturing)

lemma refused_world_eq:
 "refused_world = \<lparr>glc_log =
    [(GLC_DEBUG, ''%p: creating/updating configuration for stream %d''),
     (GLC_ERROR, ''%p: unsupported access mode 0x%02x''),
     (GLC_ERROR, ''%p: can't extract hardware configuration: %s (%d)''),
     (GLC_INFORMATION, ''starting capturing'')],
    audio_count = 0, written = [], mem = (\<lambda>a. 0),
    hook =
      \<lparr>hook_flags = 1, to_buf = 0x5000, started = True,
         stream =
           [\<lparr>state_audio = 0, audio_i = 0, pcm = 1, mode = 0,
               mmap_areas = None, frames = 0, offset = 0, channels = 2,
               rate = 44100, flags = 4, complex = False, fmt = False,
               initialized = False, packet = 0, capture_thread = 0,
               capture_finished = 0, capture_running = False,
               capture_empty = 1, capture_full = 0, write_mutex = False,
               write_spinlock = False, capture_ready = False,
               capture_data = 0, capture_size = 0, capture_data_size = 0,
               capture_time = 0\<rparr>]\<rparr>\<rparr>"
  by (simp add: refused_world_def bound_world_def idle_world_def fresh_world_def
      audio_hook_start_def audio_hook_init_streams_def audio_hook_set_buffer_def
      audio_hook_init_def zero_hook_def AUDIO_HOOK_CAPTURING_def
      audio_hook_alsa_hw_params_def
      audio_hook_get_stream_alsa_def audio_hook_lock_write_def audio_hook_unlock_write_def
      hw_params_done_def hw_params_err_def audio_hook_stream_init_def glc_state_audio_new_def
      new_stream_def zero_stream_def s16_stereo_params_def glc_h_values_def pcm_fmt_to_glc_fmt_def
      strm_def upd_def glc_log_add_def NULL_def SND_PCM_ASYNC_def Let_def)

lemma commit_configured:
  "audio_hook_alsa_mmap_commit glc_h_values s16_stereo_env configured_world 1 0 4 =
     Some (EINVAL, glc_log_add GLC_WARNING ''snd_pcm_mmap_commit() before snd_pcm_mmap_begin()''
                     (upd 0 (\<lambda>s. s\<lparr>write_mutex := True\<rparr>) configured_world))"
  by (simp add: configured_world_eq audio_hook_alsa_mmap_commit_def audio_hook_get_stream_alsa_def
      audio_hook_lock_write_def strm_def upd_def AUDIO_HOOK_CAPTURING_def SND_PCM_ASYNC_def)

lemma commit_refused:
  "audio_hook_alsa_mmap_commit glc_h_values s16_stereo_env refused_world 1 0 4 =
     Some (EINVAL, glc_log_add GLC_WARNING ''snd_pcm_mmap_commit() before snd_pcm_mmap_begin()''
                     (upd 0 (\<lambda>s. s\<lparr>write_mutex := True\<rparr>) refused_world))"
  by (simp add: refused_world_eq audio_hook_alsa_mmap_commit_def audio_hook_get_stream_alsa_def
      audio_hook_lock_write_def strm_def upd_def AUDIO_HOOK_CAPTURING_def SND_PCM_ASYNC_def)

lemma capture_full_upd:
  assumes "\<And>s. capture_full (f s) = capture_full s"
  shows "map capture_full (stream (hook (upd i f w))) = map capture_full (stream (hook w))"
proof (cases "i < length (stream (hook w))")
  case True
  then show ?thesis
    by (simp add: upd_def map_update assms list_update_same_conv)
next
  case False
  then show ?thesis
    by (simp add: upd_def list_update_beyond)
qed

lemma emits_nothing_unlock: "emits_nothing w (snd (audio_hook_unlock_write w i))"
  by (simp add: emits_nothing_def audio_hook_unlock_write_def capture_full_upd)

lemma emits_nothing_log: "emits_nothing w w' \<Longrightarrow> emits_nothing w (glc_log_add l m w')"
  by (simp add: emits_nothing_def)

lemma upt2: "[0..<2] = [0, Suc 0]"
  by (simp add: upt_rec)

subsection \<open>The target buffer is set once\<close>

lemma set_buffer_bound:
  "to_buf (hook w) \<noteq> NULL \<Longrightarrow> set_buffer_calls w bs = (replicate (length bs) EALREADY, w)"
  by (induction bs) (simp_all add: audio_hook_set_buffer_def)

text \<open>
  C7: on a hook without a target buffer the first \<^verbatim>\<open>audio_hook_set_buffer\<close>, given a
  buffer (a non-null pointer), returns 0 and records it; each of the calls that follow,
  whatever their argument, returns \<^verbatim>\<open>EALREADY\<close>, and the buffer recorded first is
  still the one bound after them.
\<close>

theorem set_buffer_binds_once:
  assumes "to_buf (hook w) = NULL" and "buffer \<noteq> NULL"
  shows "set_buffer_calls w (buffer # bs) =
           (0 # replicate (length bs) EALREADY, w\<lparr>hook := (hook w)\<lparr>to_buf := buffer\<rparr>\<rparr>)"
proof -
  let ?w1 = "w\<lparr>hook := (hook w)\<lparr>to_buf := buffer\<rparr>\<rparr>"
  have first: "audio_hook_set_buffer w buffer = (0, ?w1)"
    using assms(1) by (simp add: audio_hook_set_buffer_def)
  have "to_buf (hook ?w1) \<noteq> NULL"
    using assms(2) by simp
  then have "set_buffer_calls ?w1 bs = (replicate (length bs) EALREADY, ?w1)"
    by (rule set_buffer_bound)
  with first show ?thesis by simp
qed

theorem set_buffer_binds_once_witness:
  "set_buffer_calls idle_world [0x5000, 0x6000, 0x5000] = ([0, EALREADY, EALREADY], bound_world)"
proof -
  have a: "to_buf (hook idle_world) = NULL"
    by (simp add: idle_world_def audio_hook_init_def zero_hook_def)
  have b: "(0x5000 :: addr) \<noteq> NULL"
    by (simp add: NULL_def)
  have c: "bound_world = idle_world\<lparr>hook := (hook idle_world)\<lparr>to_buf := 0x5000\<rparr>\<rparr>"
    using a by (simp add: bound_world_def audio_hook_set_buffer_def)
  show ?thesis
    using set_buffer_binds_once [OF a b, of "[0x6000, 0x5000]"] c by simp
qed

text \<open>A null argument binds nothing: the call returns 0 and the hook is as before.\<close>

lemma set_buffer_null:
  assumes "to_buf (hook w) = NULL"
  shows "audio_hook_set_buffer w NULL = (0, w)"
proof -
  have "(hook w)\<lparr>to_buf := NULL\<rparr> = hook w"
    using assms by simp
  then show ?thesis
    using assms by (simp add: audio_hook_set_buffer_def)
qed

subsection \<open>Starting twice\<close>

text \<open>
  C8: on a hook with a target buffer that is already started and capturing,
  \<^verbatim>\<open>audio_hook_start\<close> returns 0 and logs the warning ``capturing is already active'';
  the hook, its streams, memory and the messages written downstream are as before, so no
  stream is initialized again.
\<close>

theorem start_again_changes_nothing:
  assumes "to_buf (hook w) \<noteq> NULL" and "started (hook w)"
    and "hook_flags (hook w) AND AUDIO_HOOK_CAPTURING \<noteq> 0"
  shows "audio_hook_start w = (0, glc_log_add GLC_WARNING ''capturing is already active'' w)"
  using assms by (simp add: audio_hook_start_def glc_log_add_def capturing_or)

theorem start_again_changes_nothing_witness:
  "fst (audio_hook_start bound_world) = 0
   \<and> audio_hook_start (snd (audio_hook_start bound_world)) =
       (0, glc_log_add GLC_WARNING ''capturing is already active'' (snd (audio_hook_start bound_world)))"
proof -
  have a: "to_buf (hook capturing_world) \<noteq> NULL" "started (hook capturing_world)"
    "hook_flags (hook capturing_world) AND AUDIO_HOOK_CAPTURING \<noteq> 0"
    by (simp_all add: capturing_world_eq NULL_def AUDIO_HOOK_CAPTURING_def)
  have b: "fst (audio_hook_start bound_world) = 0"
    by (simp add: bound_world_def idle_world_def audio_hook_start_def audio_hook_set_buffer_def
        audio_hook_init_def zero_hook_def NULL_def Let_def)
  show ?thesis
    using start_again_changes_nothing [OF a] b by (simp add: capturing_world_def)
qed

text \<open>A start that returns 0 leaves the hook in the state the property above asks for.\<close>

lemma stream_init_hook [simp]:
  "to_buf (hook (snd (audio_hook_stream_init w i))) = to_buf (hook w)"
  "hook_flags (hook (snd (audio_hook_stream_init w i))) = hook_flags (hook w)"
  "started (hook (snd (audio_hook_stream_init w i))) = started (hook w)"
  by (simp_all add: audio_hook_stream_init_def glc_state_audio_new_def Let_def)

lemma init_streams_fold_hook [simp]:
  "to_buf (hook (fold (\<lambda>i w. if fmt (strm w i) \<and> \<not> initialized (strm w i)
                              then snd (audio_hook_stream_init w i) else w) js w)) = to_buf (hook w)"
  "hook_flags (hook (fold (\<lambda>i w. if fmt (strm w i) \<and> \<not> initialized (strm w i)
                              then snd (audio_hook_stream_init w i) else w) js w)) = hook_flags (hook w)"
  by (induction js arbitrary: w) simp_all

lemma start_success_state:
  assumes "audio_hook_start w = (0, w1)"
  shows "to_buf (hook w1) \<noteq> NULL" and "started (hook w1)"
    and "hook_flags (hook w1) AND AUDIO_HOOK_CAPTURING \<noteq> 0"
proof -
  have tb: "to_buf (hook w) \<noteq> NULL"
    using assms by (auto simp: audio_hook_start_def EAGAIN_def split: if_splits)
  show "to_buf (hook w1) \<noteq> NULL"
    using assms tb
    by (auto simp: audio_hook_start_def audio_hook_init_streams_def Let_def split: if_splits)
  show "started (hook w1)"
    using assms tb
    by (auto simp: audio_hook_start_def audio_hook_init_streams_def Let_def split: if_splits)
  show "hook_flags (hook w1) AND AUDIO_HOOK_CAPTURING \<noteq> 0"
    using assms tb
    by (auto simp: audio_hook_start_def Let_def AUDIO_HOOK_CAPTURING_def split: if_splits)
qed

subsection \<open>Destroying a null hook\<close>

text \<open>
  C9: \<^verbatim>\<open>audio_hook_destroy\<close> on the null pointer returns \<^verbatim>\<open>EINVAL\<close> and releases
  nothing.
\<close>

theorem destroy_null_hook: "audio_hook_destroy None = (EINVAL, [])"
  by (simp add: audio_hook_destroy_def)

subsection \<open>Growing the scratch buffer\<close>

text \<open>
  C10: when \<^verbatim>\<open>audio_hook_set_data_size\<close> is asked for more than the current capacity
  and the allocation fails, it returns \<^verbatim>\<open>ENOMEM\<close> with \<^verbatim>\<open>capture_size\<close> and
  \<^verbatim>\<open>capture_data_size\<close> already set to the requested size, while \<^verbatim>\<open>capture_data\<close>
  is the null pointer: the recorded capacity has no buffer behind it.
\<close>

theorem set_data_size_failure_keeps_new_sizes:
  assumes "i < length (stream (hook w))" and "capture_data_size (strm w i) < sz"
    and "alloc e = NULL"
  shows "fst (audio_hook_set_data_size e w i sz) = ENOMEM
     \<and> capture_size (strm (snd (audio_hook_set_data_size e w i sz)) i) = sz
     \<and> capture_data_size (strm (snd (audio_hook_set_data_size e w i sz)) i) = sz
     \<and> capture_data (strm (snd (audio_hook_set_data_size e w i sz)) i) = NULL"
  using assms by (simp add: audio_hook_set_data_size_def Let_def not_le [symmetric])

theorem set_data_size_failure_keeps_new_sizes_witness:
  "fst (audio_hook_set_data_size no_memory_env configured_world 0 16) = ENOMEM
     \<and> capture_size (strm (snd (audio_hook_set_data_size no_memory_env configured_world 0 16)) 0) = 16
     \<and> capture_data_size (strm (snd (audio_hook_set_data_size no_memory_env configured_world 0 16)) 0) = 16
     \<and> capture_data (strm (snd (audio_hook_set_data_size no_memory_env configured_world 0 16)) 0) = NULL"
proof -
  have a: "0 < length (stream (hook configured_world))"
    by (simp add: configured_world_eq)
  have b: "capture_data_size (strm configured_world 0) < 16"
    by (simp add: configured_world_eq strm_def)
  have c: "alloc no_memory_env = NULL"
    by (simp add: no_memory_env_def)
  show ?thesis
    using set_data_size_failure_keeps_new_sizes [OF a b c] .
qed

text \<open>
  After such a failure a request that fits the recorded capacity succeeds with no
  buffer behind it.
\<close>

lemma set_data_size_after_failure:
  assumes "i < length (stream (hook w))" and "capture_data_size (strm w i) < sz"
    and "alloc e = NULL" and "sz' \<le> sz"
  shows "fst (audio_hook_set_data_size e' (snd (audio_hook_set_data_size e w i sz)) i sz') = 0"
    and "capture_data (strm (snd (audio_hook_set_data_size e'
            (snd (audio_hook_set_data_size e w i sz)) i sz')) i) = NULL"
  using assms by (simp_all add: audio_hook_set_data_size_def Let_def not_le [symmetric])

subsection \<open>Calls while capturing is off\<close>

text \<open>
  C4, as the code has it: with the capturing flag clear, \<^verbatim>\<open>audio_hook_alsa_i\<close>
  (writei), \<^verbatim>\<open>audio_hook_alsa_n\<close> (writen), \<^verbatim>\<open>audio_hook_alsa_mmap_begin\<close> and
  \<^verbatim>\<open>audio_hook_alsa_mmap_commit\<close> return 0 and leave the whole state as it is.
\<close>

theorem not_capturing_is_noop:
  assumes "hook_flags (hook w) AND AUDIO_HOOK_CAPTURING = 0"
  shows "audio_hook_alsa_i e w p buffer sz = Some (0, w)
     \<and> audio_hook_alsa_n K e w p bufs sz = Some (0, w)
     \<and> audio_hook_alsa_mmap_begin w p ars off frms = Some (0, w)
     \<and> audio_hook_alsa_mmap_commit K e w p off frms = Some (0, w)"
  using assms
  by (simp add: audio_hook_alsa_i_def audio_hook_alsa_n_def audio_hook_alsa_mmap_begin_def
      audio_hook_alsa_mmap_commit_def)

theorem not_capturing_is_noop_witness:
  "audio_hook_alsa_i s16_stereo_env idle_world 1 0x6000 4 = Some (0, idle_world)
     \<and> audio_hook_alsa_n glc_h_values s16_stereo_env idle_world 1 (\<lambda>c. 0x6000) 4 = Some (0, idle_world)
     \<and> audio_hook_alsa_mmap_begin idle_world 1 (Some two_areas) 0 4 = Some (0, idle_world)
     \<and> audio_hook_alsa_mmap_commit glc_h_values s16_stereo_env idle_world 1 0 4 = Some (0, idle_world)"
proof -
  have "hook_flags (hook idle_world) AND AUDIO_HOOK_CAPTURING = 0"
    by (simp add: idle_world_eq)
  then show ?thesis
    by (rule not_capturing_is_noop)
qed

text \<open>
  C4 does not hold of \<^verbatim>\<open>audio_hook_alsa_open\<close>, \<^verbatim>\<open>audio_hook_alsa_close\<close> and
  \<^verbatim>\<open>audio_hook_alsa_hw_params\<close>, which never read the capturing flag: on the hook
  just initialized, capturing clear, each of them registers stream 1 and so changes the
  hook.
\<close>

theorem open_close_hw_params_ignore_capturing:
  "hook_flags (hook idle_world) AND AUDIO_HOOK_CAPTURING = 0
   \<and> hook (snd (audio_hook_alsa_open idle_world 1 ''default'' 0)) \<noteq> hook idle_world
   \<and> hook (snd (audio_hook_alsa_close idle_world 1)) \<noteq> hook idle_world
   \<and> hook (snd (the (audio_hook_alsa_hw_params glc_h_values idle_world 1
              (s16_stereo_params SND_PCM_ACCESS_RW_INTERLEAVED)))) \<noteq> hook idle_world"
  by (simp add: idle_configured)
     (simp add: idle_world_eq audio_hook_alsa_open_def audio_hook_alsa_close_def
      audio_hook_get_stream_alsa_def upd_def glc_log_add_def)

subsection \<open>The audio id of a stream\<close>

text \<open>
  C5 does not hold before the hook is started: \<^verbatim>\<open>audio_hook_alsa_hw_params\<close> on the
  hook just initialized returns 0 and the stream's \<^verbatim>\<open>audio_i\<close> is still 0, since
  \<^verbatim>\<open>audio_hook_stream_init\<close> is only called when \<^verbatim>\<open>started\<close> is set.
\<close>

theorem hw_params_before_start_leaves_audio_id_zero:
  "map_option fst (audio_hook_alsa_hw_params glc_h_values idle_world 1
       (s16_stereo_params SND_PCM_ACCESS_RW_INTERLEAVED)) = Some 0
   \<and> audio_i (strm (snd (the (audio_hook_alsa_hw_params glc_h_values idle_world 1
       (s16_stereo_params SND_PCM_ACCESS_RW_INTERLEAVED)))) 0) = 0"
  by (simp add: idle_configured strm_def)

lemma stream_init_audio_i:
  assumes "i < length (stream (hook w))" and "fmt (strm w i)"
  shows "fst (audio_hook_stream_init w i) = 0"
    and "0 < audio_i (strm (snd (audio_hook_stream_init w i)) i)"
  using assms
  by (simp_all add: audio_hook_stream_init_def glc_state_audio_new_def worker_quit_def Let_def)

lemma unlock_write_keeps [simp]:
  "i < length (stream (hook w)) \<Longrightarrow>
     audio_i (strm (snd (audio_hook_unlock_write w i)) i) = audio_i (strm w i)"
  by (simp add: audio_hook_unlock_write_def)

lemma hw_params_err_code: "hw_params_err w i ret = Some (r, w') \<Longrightarrow> r = ret"
  by (auto simp: hw_params_err_def)

lemma hw_params_done_audio_i:
  assumes "i < length (stream (hook w))" and "started (hook w)"
    and "hw_params_done w i = Some (r, w')"
  shows "0 < audio_i (strm w' i)"
proof -
  let ?w2 = "upd i (\<lambda>s. s\<lparr>fmt := True\<rparr>)
               (glc_log_add GLC_DEBUG ''%p: %d channels, rate %d, flags 0x%02x'' w)"
  have len: "i < length (stream (hook ?w2))" and f: "fmt (strm ?w2 i)"
    using assms(1) by simp_all
  have st: "started (hook ?w2)"
    using assms(2) by simp
  have len3: "i < length (stream (hook (snd (audio_hook_stream_init ?w2 i))))"
    using len by (simp add: audio_hook_stream_init_def glc_state_audio_new_def Let_def)
  have "hw_params_done w i =
          Some (0, snd (audio_hook_unlock_write (snd (audio_hook_stream_init ?w2 i)) i))"
    using st stream_init_audio_i(1) [OF len f]
    by (simp add: hw_params_done_def Let_def case_prod_beta)
  with assms(3) have "w' = snd (audio_hook_unlock_write (snd (audio_hook_stream_init ?w2 i)) i)"
    by simp
  then show ?thesis
    using stream_init_audio_i(2) [OF len f] len3 by simp
qed

lemma lock_write_Some:
  assumes "audio_hook_lock_write w i = Some (r, w')"
  shows "r = 0" and "started (hook w') = started (hook w)"
    and "length (stream (hook w')) = length (stream (hook w))"
  using assms by (auto simp: audio_hook_lock_write_def split: if_splits)

text \<open>
  C5, as the code has it: when the hook is started, a call of
  \<^verbatim>\<open>audio_hook_alsa_hw_params\<close> that returns 0 leaves the stream it configured with
  \<^verbatim>\<open>audio_i\<close> greater than 0.
\<close>

theorem hw_params_on_started_hook_gives_audio_id:
  assumes "started (hook w)" and "audio_hook_get_stream_alsa w p = (w1, i)"
    and "audio_hook_alsa_hw_params K w p params = Some (0, w')"
  shows "0 < audio_i (strm w' i)"
proof -
  have len1: "i < length (stream (hook w1))" and st1: "started (hook w1)"
    using get_stream_props [OF assms(2)] assms(1) by simp_all
  obtain w2 where lk: "audio_hook_lock_write w1 i = Some (0, w2)"
    using assms(2,3) lock_write_Some(1)
    by (fastforce simp: audio_hook_alsa_hw_params_def split: option.splits)
  have len2: "i < length (stream (hook w2))" and st2: "started (hook w2)"
    using lock_write_Some(2,3) [OF lk] len1 st1 by simp_all
  have fin: "\<And>w7 r. hw_params_done w7 i = Some (r, w') \<Longrightarrow>
      i < length (stream (hook w7)) \<and> started (hook w7) \<longrightarrow> 0 < audio_i (strm w' i)"
    using hw_params_done_audio_i by blast
  show ?thesis
    using assms(3) len2 st2
    by (auto simp: audio_hook_alsa_hw_params_def assms(2) lk Let_def ENOTSUP_def
             dest!: hw_params_err_code fin split: if_splits)
qed

theorem hw_params_on_started_hook_gives_audio_id_witness:
  "started (hook capturing_world) \<and> 0 < audio_i (strm configured_world 0)"
proof -
  have a: "started (hook capturing_world)"
    by (simp add: capturing_world_eq)
  have b: "audio_hook_get_stream_alsa capturing_world 1 =
             (capturing_world\<lparr>hook := (hook capturing_world)\<lparr>stream := [new_stream 1]\<rparr>\<rparr>, 0)"
    by (simp add: capturing_world_eq audio_hook_get_stream_alsa_def)
  have c: "audio_hook_alsa_hw_params glc_h_values capturing_world 1
             (s16_stereo_params SND_PCM_ACCESS_RW_INTERLEAVED) = Some (0, configured_world)"
    by (simp add: hw_params_capturing configured_world_eq)
  show ?thesis
    using hw_params_on_started_hook_gives_audio_id [OF a b c] a by simp
qed

subsection \<open>The non-interleaved write on an interleaved stream\<close>

text \<open>
  While capturing, on an initialized stream whose flags include
  \<^verbatim>\<open>GLC_AUDIO_INTERLEAVED\<close> and whose write lock is free,
  \<^verbatim>\<open>audio_hook_alsa_n\<close> (writen) returns \<^verbatim>\<open>EINVAL\<close>. The state it leaves is the
  one it found plus one line in the log: \<^verbatim>\<open>capture_full\<close> is not posted, memory and
  with it the scratch buffer is not written, nothing is sent downstream.
\<close>

lemma writen_on_interleaved_stream_rejected:
  assumes "hook_flags (hook w) AND AUDIO_HOOK_CAPTURING \<noteq> 0"
    and "find_stream p (stream (hook w)) = Some i"
    and "initialized (strm w i)"
    and "flags (strm w i) AND GLC_AUDIO_INTERLEAVED K \<noteq> 0"
    and "\<not> write_lock_held (strm w i)"
  shows "audio_hook_alsa_n K e w p bufs sz =
           Some (EINVAL, glc_log_add GLC_ERROR
                   ''stream format (interleaved) incompatible with snd_pcm_writen()'' w)
         \<and> emits_nothing w (snd (the (audio_hook_alsa_n K e w p bufs sz)))"
proof -
  have len: "i < length (stream (hook w))"
    using find_stream_Some [OF assms(2)] by simp
  have gs: "audio_hook_get_stream_alsa w p = (w, i)"
    using assms(2) by (rule get_stream_found)
  obtain w2 where lk: "audio_hook_lock_write w i = Some (0, w2)"
    and ul: "\<And>l m. snd (audio_hook_unlock_write (glc_log_add l m w2) i) = glc_log_add l m w"
    and sh: "w2 = upd i (\<lambda>s. s\<lparr>write_mutex := True\<rparr>) w \<or> w2 = upd i (\<lambda>s. s\<lparr>write_spinlock := True\<rparr>) w"
    using lock_write_free [OF len assms(5)] by metis
  have "flags (strm w2 i) = flags (strm w i)"
    using sh len by auto
  then have fl: "flags (strm w2 i) AND GLC_AUDIO_INTERLEAVED K \<noteq> 0"
    using assms(4) by simp
  have "audio_hook_alsa_n K e w p bufs sz =
          Some (EINVAL, glc_log_add GLC_ERROR
                  ''stream format (interleaved) incompatible with snd_pcm_writen()'' w)"
    using assms(1,3) fl by (simp add: audio_hook_alsa_n_def gs lk ul)
  then show ?thesis
    by (simp add: emits_nothing_def)
qed

lemma writen_on_interleaved_stream_rejected_example:
  "audio_hook_alsa_n glc_h_values s16_stereo_env configured_world 1 (\<lambda>c. 0x6000) 4 =
           Some (EINVAL, glc_log_add GLC_ERROR
                   ''stream format (interleaved) incompatible with snd_pcm_writen()'' configured_world)
   \<and> emits_nothing configured_world
        (snd (the (audio_hook_alsa_n glc_h_values s16_stereo_env configured_world 1 (\<lambda>c. 0x6000) 4)))"
proof -
  have a: "hook_flags (hook configured_world) AND AUDIO_HOOK_CAPTURING \<noteq> 0"
    by (simp add: configured_world_eq AUDIO_HOOK_CAPTURING_def)
  have b: "find_stream 1 (stream (hook configured_world)) = Some 0"
    by (simp add: configured_world_eq)
  have c: "initialized (strm configured_world 0)"
    by (simp add: configured_world_eq strm_def)
  have d: "flags (strm configured_world 0) AND GLC_AUDIO_INTERLEAVED glc_h_values \<noteq> 0"
    by (simp add: configured_world_eq strm_def glc_h_values_def)
  have e: "\<not> write_lock_held (strm configured_world 0)"
    by (simp add: configured_world_eq strm_def write_lock_held_def)
  show ?thesis
    using writen_on_interleaved_stream_rejected [OF a b c d e] .
qed

lemma leaked_world_eq:
  "leaked_world = glc_log_add GLC_WARNING ''snd_pcm_mmap_commit() before snd_pcm_mmap_begin()''
                     (upd 0 (\<lambda>s. s\<lparr>write_mutex := True\<rparr>) configured_world)"
  by (simp add: leaked_world_def commit_configured)

text \<open>
  C6 fails on the code: \<^verbatim>\<open>audio_hook_alsa_n\<close> takes the write lock before it tests
  the flags. After \<^verbatim>\<open>audio_hook_alsa_mmap_commit\<close> has returned \<^verbatim>\<open>EINVAL\<close> on the
  configured stream 1 without releasing that lock, the hook is capturing and the stream
  is initialized and interleaved, yet writen on it waits for the lock and does not
  return, where it should return \<^verbatim>\<open>EINVAL\<close>.
\<close>

theorem writen_waits_for_kept_write_lock:
  "hook_flags (hook leaked_world) AND AUDIO_HOOK_CAPTURING \<noteq> 0
   \<and> find_stream 1 (stream (hook leaked_world)) = Some 0
   \<and> initialized (strm leaked_world 0)
   \<and> flags (strm leaked_world 0) AND GLC_AUDIO_INTERLEAVED glc_h_values \<noteq> 0
   \<and> audio_hook_alsa_n glc_h_values s16_stereo_env leaked_world 1 (\<lambda>c. 0x6000) 4 = None"
  by (simp add: leaked_world_eq)
     (simp add: configured_world_eq audio_hook_alsa_n_def audio_hook_get_stream_alsa_def
        audio_hook_lock_write_def strm_def upd_def glc_log_add_def glc_h_values_def
        AUDIO_HOOK_CAPTURING_def SND_PCM_ASYNC_def)

text \<open>That state is one the interface produces.\<close>

lemma leaked_world_reachable: "reachable leaked_world"
proof -
  have "reachable idle_world"
    unfolding idle_world_def by (rule reachable.init)
  then have "reachable bound_world"
    unfolding bound_world_def by (rule reachable.set_buffer)
  then have "reachable capturing_world"
    unfolding capturing_world_def by (rule reachable.start)
  moreover have "audio_hook_alsa_hw_params glc_h_values capturing_world 1
      (s16_stereo_params SND_PCM_ACCESS_RW_INTERLEAVED) = Some (0, configured_world)"
    by (simp add: hw_params_capturing configured_world_eq)
  ultimately have "reachable configured_world"
    by (rule reachable.hw_params)
  moreover have "audio_hook_alsa_mmap_commit glc_h_values s16_stereo_env configured_world 1 0 4 =
      Some (EINVAL, leaked_world)"
    by (simp add: commit_configured leaked_world_eq)
  ultimately show ?thesis
    by (rule reachable.mmap_commit)
qed

subsection \<open>Areas are recorded on initialized streams only\<close>

lemma areas_inv_upd:
  assumes "areas_inv w" and "\<And>s. areas_recorded_ok s \<Longrightarrow> areas_recorded_ok (f s)"
  shows "areas_inv (upd i f w)"
proof (cases "i < length (stream (hook w))")
  case True
  then have "areas_recorded_ok (stream (hook w) ! i)"
    using assms(1) by (simp add: areas_inv_def list_all_length)
  then have "areas_recorded_ok (f (stream (hook w) ! i))"
    by (rule assms(2))
  then show ?thesis
    using assms(1) True
    by (auto simp: areas_inv_def upd_def list_all_length nth_list_update)
next
  case False
  then show ?thesis
    using assms(1) by (simp add: areas_inv_def upd_def list_update_beyond)
qed

lemma areas_inv_keep [simp]:
  assumes "\<And>s. initialized (f s) = initialized s" and "\<And>s. mmap_areas (f s) = mmap_areas s"
  shows "areas_inv (upd i f w) = areas_inv w"
proof (cases "i < length (stream (hook w))")
  case True
  have "areas_recorded_ok (f s) = areas_recorded_ok s" for s
    by (simp add: areas_recorded_ok_def assms)
  then show ?thesis
    using True by (auto simp: areas_inv_def upd_def list_all_length nth_list_update)
next
  case False
  then show ?thesis
    by (simp add: areas_inv_def upd_def list_update_beyond)
qed

lemma areas_inv_fields [simp]:
  "areas_inv (w\<lparr>mem := m\<rparr>) = areas_inv w"
  "areas_inv (w\<lparr>written := ms\<rparr>) = areas_inv w"
  "areas_inv (w\<lparr>audio_count := n\<rparr>) = areas_inv w"
  "areas_inv (glc_log_add l msg w) = areas_inv w"
  "areas_inv (w\<lparr>hook := (hook w)\<lparr>hook_flags := fl\<rparr>\<rparr>) = areas_inv w"
  "areas_inv (w\<lparr>hook := (hook w)\<lparr>to_buf := b\<rparr>\<rparr>) = areas_inv w"
  "areas_inv (w\<lparr>hook := (hook w)\<lparr>started := st\<rparr>\<rparr>) = areas_inv w"
  by (simp_all add: areas_inv_def glc_log_add_def)

lemma areas_inv_get_stream:
  "audio_hook_get_stream_alsa w p = (w1, i) \<Longrightarrow> areas_inv w1 = areas_inv w"
  by (auto simp: audio_hook_get_stream_alsa_def areas_inv_def areas_recorded_ok_def
      new_stream_def zero_stream_def split: option.splits)

lemma areas_inv_unlock [simp]:
  "areas_inv (snd (audio_hook_unlock_write w i)) = areas_inv w"
  by (simp add: audio_hook_unlock_write_def)

lemma areas_inv_lock:
  "audio_hook_lock_write w i = Some (r, w') \<Longrightarrow> areas_inv w' = areas_inv w"
  by (auto simp: audio_hook_lock_write_def split: if_splits)

lemma wait_capture_ready_result:
  assumes "wait_capture_ready w i = Some y"
  shows "snd y = w \<or>
         snd y = glc_log_add GLC_WARNING ''dropped audio data, capture thread not ready'' w"
  by (rule wait_capture_ready.raw_induct
        [where P = "\<lambda>w i y. snd y = w \<or>
           snd y = glc_log_add GLC_WARNING ''dropped audio data, capture thread not ready'' w",
         OF _ assms])
     (auto split: if_splits)

lemma areas_inv_wait:
  "audio_hook_wait_for_thread w i = Some (r, w') \<Longrightarrow> areas_inv w' = areas_inv w"
  by (auto simp: audio_hook_wait_for_thread_def split: if_splits
           dest!: wait_capture_ready_result)

lemma areas_inv_set_data_size [simp]:
  "areas_inv (snd (audio_hook_set_data_size e w i sz)) = areas_inv w"
  by (simp add: audio_hook_set_data_size_def Let_def)

lemma areas_inv_stream_init:
  "areas_inv w \<Longrightarrow> areas_inv (snd (audio_hook_stream_init w i))"
  by (auto simp: audio_hook_stream_init_def glc_state_audio_new_def worker_quit_def Let_def
           areas_recorded_ok_def intro!: areas_inv_upd)

lemma areas_inv_init_streams_fold:
  "areas_inv w \<Longrightarrow>
   areas_inv (fold (\<lambda>i w. if fmt (strm w i) \<and> \<not> initialized (strm w i)
                              then snd (audio_hook_stream_init w i) else w) js w)"
  by (induction js arbitrary: w) (simp_all add: areas_inv_stream_init)

lemma areas_inv_start: "areas_inv w \<Longrightarrow> areas_inv (snd (audio_hook_start w))"
  by (simp add: audio_hook_start_def audio_hook_init_streams_def Let_def
      areas_inv_init_streams_fold)

lemma areas_inv_hw_params_err:
  "hw_params_err w i ret = Some (r, w') \<Longrightarrow> areas_inv w' = areas_inv w"
  by (auto simp: hw_params_err_def)

lemma areas_inv_hw_params_done:
  "areas_inv w \<Longrightarrow> hw_params_done w i = Some (r, w') \<Longrightarrow> areas_inv w'"
  by (auto simp: hw_params_done_def Let_def case_prod_beta areas_inv_hw_params_err
           split: if_splits intro!: areas_inv_stream_init)

lemma areas_inv_hw_params:
  assumes "areas_inv w" and "audio_hook_alsa_hw_params K w p params = Some (r, w')"
  shows "areas_inv w'"
proof -
  obtain w1 i where gs: "audio_hook_get_stream_alsa w p = (w1, i)"
    by (cases "audio_hook_get_stream_alsa w p")
  have inv1: "areas_inv w1"
    using areas_inv_get_stream [OF gs] assms(1) by simp
  obtain r2 w2 where lk: "audio_hook_lock_write w1 i = Some (r2, w2)"
    using assms(2) gs by (auto simp: audio_hook_alsa_hw_params_def split: option.splits)
  have inv2: "areas_inv w2"
    using areas_inv_lock [OF lk] inv1 by simp
  show ?thesis
    using assms(2) inv2
    by (auto simp: audio_hook_alsa_hw_params_def gs lk Let_def areas_inv_hw_params_err
             split: if_splits
             elim!: areas_inv_hw_params_done [rotated])
qed

lemma areas_inv_open: "areas_inv w \<Longrightarrow> areas_inv (snd (audio_hook_alsa_open w p name md))"
  by (cases "audio_hook_get_stream_alsa w p")
     (simp add: audio_hook_alsa_open_def Let_def areas_inv_get_stream)

lemma areas_inv_close: "areas_inv w \<Longrightarrow> areas_inv (snd (audio_hook_alsa_close w p))"
  by (cases "audio_hook_get_stream_alsa w p")
     (simp add: audio_hook_alsa_close_def Let_def areas_inv_get_stream)

lemma areas_inv_alsa_i:
  assumes "areas_inv w" and "audio_hook_alsa_i e w p buffer sz = Some (r, w')"
  shows "areas_inv w'"
proof -
  obtain w1 i where gs: "audio_hook_get_stream_alsa w p = (w1, i)"
    by (cases "audio_hook_get_stream_alsa w p")
  have inv1: "areas_inv w1"
    using areas_inv_get_stream [OF gs] assms(1) by simp
  show ?thesis
    using assms inv1
    by (auto simp: audio_hook_alsa_i_def gs Let_def case_prod_beta
             split: if_splits option.splits
             dest!: areas_inv_lock areas_inv_wait)
qed

lemma areas_inv_alsa_n:
  assumes "areas_inv w" and "audio_hook_alsa_n K e w p bufs sz = Some (r, w')"
  shows "areas_inv w'"
proof -
  obtain w1 i where gs: "audio_hook_get_stream_alsa w p = (w1, i)"
    by (cases "audio_hook_get_stream_alsa w p")
  have inv1: "areas_inv w1"
    using areas_inv_get_stream [OF gs] assms(1) by simp
  show ?thesis
    using assms inv1
    by (auto simp: audio_hook_alsa_n_def gs Let_def case_prod_beta
             split: if_splits option.splits
             dest!: areas_inv_lock areas_inv_wait)
qed

lemma areas_inv_mmap_commit_copy [simp]:
  "areas_inv (mmap_commit_copy K e w i ars off frms) = areas_inv w"
  by (simp add: mmap_commit_copy_def Let_def)

lemma areas_inv_mmap_commit:
  assumes "areas_inv w" and "audio_hook_alsa_mmap_commit K e w p off frms = Some (r, w')"
  shows "areas_inv w'"
proof -
  obtain w1 i where gs: "audio_hook_get_stream_alsa w p = (w1, i)"
    by (cases "audio_hook_get_stream_alsa w p")
  have inv1: "areas_inv w1"
    using areas_inv_get_stream [OF gs] assms(1) by simp
  show ?thesis
    using assms inv1
    by (auto simp: audio_hook_alsa_mmap_commit_def gs Let_def case_prod_beta
             split: if_splits option.splits
             dest!: areas_inv_lock areas_inv_wait)
qed

lemma areas_inv_mmap_begin:
  assumes "areas_inv w" and "audio_hook_alsa_mmap_begin w p ars off frms = Some (r, w')"
  shows "areas_inv w'"
proof (cases "hook_flags (hook w) AND AUDIO_HOOK_CAPTURING = 0")
  case True
  then show ?thesis
    using assms by (simp add: audio_hook_alsa_mmap_begin_def)
next
  case False
  obtain w1 i where gs: "audio_hook_get_stream_alsa w p = (w1, i)"
    by (cases "audio_hook_get_stream_alsa w p")
  have inv1: "areas_inv w1"
    using areas_inv_get_stream [OF gs] assms(1) by simp
  show ?thesis
  proof (cases "initialized (strm w1 i)")
    case False
    then show ?thesis
      using assms(2) inv1 \<open>hook_flags (hook w) AND AUDIO_HOOK_CAPTURING \<noteq> 0\<close>
      by (auto simp: audio_hook_alsa_mmap_begin_def gs)
  next
    case True
    obtain r2 w2 where lk: "audio_hook_lock_write w1 i = Some (r2, w2)"
      using assms(2) gs True \<open>hook_flags (hook w) AND AUDIO_HOOK_CAPTURING \<noteq> 0\<close>
      by (auto simp: audio_hook_alsa_mmap_begin_def split: option.splits)
    have inv2: "areas_inv w2"
      using areas_inv_lock [OF lk] inv1 by simp
    have len: "i < length (stream (hook w1))"
      using get_stream_props(1) [OF gs] .
    have init2: "initialized (strm w2 i)"
      using lk True len by (auto simp: audio_hook_lock_write_def split: if_splits)
    have "areas_inv (upd i f w2)" if "\<And>s. initialized (f s) = initialized s" for f
    proof (cases "i < length (stream (hook w2))")
      case True
      then show ?thesis
        using inv2 init2 that
        by (auto simp: areas_inv_def upd_def strm_def list_all_length nth_list_update
            areas_recorded_ok_def)
    next
      case False
      then show ?thesis
        using inv2 by (simp add: areas_inv_def upd_def list_update_beyond)
    qed
    then show ?thesis
      using assms(2) True \<open>hook_flags (hook w) AND AUDIO_HOOK_CAPTURING \<noteq> 0\<close> inv2
      by (auto simp: audio_hook_alsa_mmap_begin_def gs lk Let_def comp_def split: if_splits)
  qed
qed

lemma reachable_areas_inv: "reachable w \<Longrightarrow> areas_inv w"
proof (induction rule: reachable.induct)
  case (init w)
  then show ?case
    by (simp add: audio_hook_init_def zero_hook_def areas_inv_def)
next
  case (set_buffer w b)
  then show ?case
    by (simp add: audio_hook_set_buffer_def)
next
  case (allow_skip w a)
  then show ?case
    by (simp add: audio_hook_allow_skip_def)
next
  case (start w)
  then show ?case
    by (simp add: areas_inv_start)
next
  case (stop w)
  then show ?case
    by (simp add: audio_hook_stop_def Let_def)
next
  case (alsa_open w p name md)
  then show ?case
    by (simp add: areas_inv_open)
next
  case (alsa_close w p)
  then show ?case
    by (simp add: areas_inv_close)
next
  case (hw_params w K p params r w')
  then show ?case
    using areas_inv_hw_params by blast
next
  case (alsa_i w e p buffer sz r w')
  then show ?case
    using areas_inv_alsa_i by blast
next
  case (alsa_n w K e p bufs sz r w')
  then show ?case
    using areas_inv_alsa_n by blast
next
  case (mmap_begin w p ars off frms r w')
  then show ?case
    using areas_inv_mmap_begin by blast
next
  case (mmap_commit w K e p off frms r w')
  then show ?case
    using areas_inv_mmap_commit by blast
qed

subsection \<open>Calls on a stream that is not initialized\<close>

text \<open>
  C2 does not hold of \<^verbatim>\<open>audio_hook_alsa_mmap_commit\<close>, which never reads
  \<^verbatim>\<open>initialized\<close>: on the started hook, for a handle not seen before (the stream is
  created uninitialized, with no channels), it returns 0, not \<^verbatim>\<open>EINVAL\<close>.
\<close>

theorem mmap_commit_on_unseen_stream_succeeds:
  "hook_flags (hook capturing_world) AND AUDIO_HOOK_CAPTURING \<noteq> 0
   \<and> \<not> initialized (strm (fst (audio_hook_get_stream_alsa capturing_world 1))
                      (snd (audio_hook_get_stream_alsa capturing_world 1)))
   \<and> map_option fst (audio_hook_alsa_mmap_commit glc_h_values s16_stereo_env capturing_world 1 0 4)
       = Some 0
   \<and> (0 :: int) \<noteq> EINVAL"
  by (simp add: capturing_world_eq audio_hook_alsa_mmap_commit_def audio_hook_get_stream_alsa_def
      audio_hook_lock_write_def audio_hook_unlock_write_def new_stream_def zero_stream_def
      strm_def upd_def AUDIO_HOOK_CAPTURING_def SND_PCM_ASYNC_def EINVAL_def)

text \<open>
  C2, as the code has it: while capturing, on a stream that is not initialized,
  \<^verbatim>\<open>audio_hook_alsa_i\<close> (writei), \<^verbatim>\<open>audio_hook_alsa_n\<close> (writen) and
  \<^verbatim>\<open>audio_hook_alsa_mmap_begin\<close> return \<^verbatim>\<open>EINVAL\<close> and emit nothing.
  \<^verbatim>\<open>audio_hook_alsa_mmap_commit\<close> emits nothing either when the stream has no areas
  recorded (only \<^verbatim>\<open>audio_hook_alsa_mmap_begin\<close> on an initialized stream records
  them) and its write lock is free; it then returns 0 when the stream has no channels and
  \<^verbatim>\<open>EINVAL\<close> otherwise. Here \<open>w1\<close> is the state once the stream is located, that
  is created when the handle is new.
\<close>

theorem uninitialized_stream_rejected:
  assumes "hook_flags (hook w) AND AUDIO_HOOK_CAPTURING \<noteq> 0"
    and "audio_hook_get_stream_alsa w p = (w1, i)"
    and "\<not> initialized (strm w1 i)"
  shows "(\<exists>w'. audio_hook_alsa_i e w p buffer sz = Some (EINVAL, w') \<and> emits_nothing w1 w')
     \<and> (\<exists>w'. audio_hook_alsa_n K e w p bufs sz = Some (EINVAL, w') \<and> emits_nothing w1 w')
     \<and> (\<exists>w'. audio_hook_alsa_mmap_begin w p ars off frms = Some (EINVAL, w') \<and> emits_nothing w1 w')
     \<and> (mmap_areas (strm w1 i) = None \<and> \<not> write_lock_held (strm w1 i) \<longrightarrow>
          (\<exists>w'. audio_hook_alsa_mmap_commit K e w p off frms =
                   Some (if channels (strm w1 i) = 0 then 0 else EINVAL, w')
                 \<and> emits_nothing w1 w'))"
proof (intro conjI impI)
  show "\<exists>w'. audio_hook_alsa_i e w p buffer sz = Some (EINVAL, w') \<and> emits_nothing w1 w'"
    using assms by (simp add: audio_hook_alsa_i_def emits_nothing_unlock)
  show "\<exists>w'. audio_hook_alsa_n K e w p bufs sz = Some (EINVAL, w') \<and> emits_nothing w1 w'"
    using assms by (simp add: audio_hook_alsa_n_def emits_nothing_unlock)
  show "\<exists>w'. audio_hook_alsa_mmap_begin w p ars off frms = Some (EINVAL, w') \<and> emits_nothing w1 w'"
    using assms by (simp add: audio_hook_alsa_mmap_begin_def emits_nothing_unlock)
next
  assume h: "mmap_areas (strm w1 i) = None \<and> \<not> write_lock_held (strm w1 i)"
  have len: "i < length (stream (hook w1))"
    using get_stream_props(1) [OF assms(2)] .
  obtain w2 where lk: "audio_hook_lock_write w1 i = Some (0, w2)"
    and ul: "snd (audio_hook_unlock_write w2 i) = w1"
    and sh: "w2 = upd i (\<lambda>s. s\<lparr>write_mutex := True\<rparr>) w1 \<or> w2 = upd i (\<lambda>s. s\<lparr>write_spinlock := True\<rparr>) w1"
    using lock_write_free [OF len] h by metis
  have same: "channels (strm w2 i) = channels (strm w1 i)" "mmap_areas (strm w2 i) = None"
    using sh len h by auto
  have quiet: "emits_nothing w1 w2"
    using sh by (auto simp: emits_nothing_def capture_full_upd)
  show "\<exists>w'. audio_hook_alsa_mmap_commit K e w p off frms =
                   Some (if channels (strm w1 i) = 0 then 0 else EINVAL, w')
                 \<and> emits_nothing w1 w'"
  proof (cases "channels (strm w1 i) = 0")
    case True
    then have "audio_hook_alsa_mmap_commit K e w p off frms = Some (0, w1)"
      using assms(1,2) same by (simp add: audio_hook_alsa_mmap_commit_def lk ul)
    then show ?thesis
      using True by (simp add: emits_nothing_def)
  next
    case False
    then have "audio_hook_alsa_mmap_commit K e w p off frms =
        Some (EINVAL, glc_log_add GLC_WARNING ''snd_pcm_mmap_commit() before snd_pcm_mmap_begin()'' w2)"
      using assms(1,2) same by (simp add: audio_hook_alsa_mmap_commit_def lk)
    then show ?thesis
      using False quiet by (simp add: emits_nothing_log)
  qed
qed

theorem uninitialized_stream_rejected_witness:
  "map_option fst (audio_hook_alsa_i s16_stereo_env capturing_world 1 0x6000 4) = Some EINVAL
   \<and> map_option fst (audio_hook_alsa_n glc_h_values s16_stereo_env capturing_world 1
                       (\<lambda>c. 0x6000) 4) = Some EINVAL
   \<and> map_option fst (audio_hook_alsa_mmap_begin capturing_world 1 (Some two_areas) 0 4)
       = Some EINVAL
   \<and> map_option fst (audio_hook_alsa_mmap_commit glc_h_values s16_stereo_env capturing_world 1 0 4)
       = Some 0
   \<and> emits_nothing (fst (audio_hook_get_stream_alsa capturing_world 1))
         (snd (the (audio_hook_alsa_i s16_stereo_env capturing_world 1 0x6000 4)))
   \<and> emits_nothing (fst (audio_hook_get_stream_alsa capturing_world 1))
         (snd (the (audio_hook_alsa_mmap_commit glc_h_values s16_stereo_env capturing_world 1 0 4)))"
proof -
  let ?w1 = "capturing_world\<lparr>hook := (hook capturing_world)\<lparr>stream := [new_stream 1]\<rparr>\<rparr>"
  have a: "hook_flags (hook capturing_world) AND AUDIO_HOOK_CAPTURING \<noteq> 0"
    by (simp add: capturing_world_eq AUDIO_HOOK_CAPTURING_def)
  have b: "audio_hook_get_stream_alsa capturing_world 1 = (?w1, 0)"
    by (simp add: capturing_world_eq audio_hook_get_stream_alsa_def)
  have c: "\<not> initialized (strm ?w1 0)"
    by (simp add: strm_def new_stream_def zero_stream_def)
  have d: "mmap_areas (strm ?w1 0) = None \<and> \<not> write_lock_held (strm ?w1 0)"
    "channels (strm ?w1 0) = 0"
    by (simp_all add: strm_def new_stream_def zero_stream_def write_lock_held_def)
  show ?thesis
    using uninitialized_stream_rejected [OF a b c, of s16_stereo_env "0x6000" 4 glc_h_values
        "\<lambda>c. 0x6000" "Some two_areas" 0 4] b d
    by auto
qed

text \<open>
  In every reachable state a stream that is not initialized has no areas recorded, as
  the property above asks of \<^verbatim>\<open>audio_hook_alsa_mmap_commit\<close>.
\<close>

lemma reachable_uninitialized_no_areas:
  assumes "reachable w" and "audio_hook_get_stream_alsa w p = (w1, i)"
    and "\<not> initialized (strm w1 i)"
  shows "mmap_areas (strm w1 i) = None"
proof -
  have "areas_inv w1"
    using reachable_areas_inv [OF assms(1)] areas_inv_get_stream [OF assms(2)] by simp
  then have "areas_recorded_ok (strm w1 i)"
    using get_stream_props(1) [OF assms(2)] by (simp add: areas_inv_def list_all_length strm_def)
  then show ?thesis
    using assms(3) by (simp add: areas_recorded_ok_def)
qed

subsection \<open>The write lock\<close>

text \<open>
  C3 fails on the code. On the configured stream 1, whose lock is free,
  \<^verbatim>\<open>audio_hook_alsa_mmap_commit\<close> before any \<^verbatim>\<open>audio_hook_alsa_mmap_begin\<close> takes
  the write lock and returns \<^verbatim>\<open>EINVAL\<close> still holding it; the next
  \<^verbatim>\<open>audio_hook_alsa_i\<close> on that stream waits for the lock and does not return. On the
  refused stream 1, which is not initialized, the same call leaves the lock held as well,
  and the \<^verbatim>\<open>audio_hook_alsa_i\<close> that follows returns \<^verbatim>\<open>EINVAL\<close> through its
  \<^verbatim>\<open>unlock\<close> label: it releases a lock it has not taken.
\<close>

theorem mmap_commit_before_begin_keeps_write_lock:
  "\<not> write_lock_held (strm configured_world 0)
   \<and> map_option fst (audio_hook_alsa_mmap_commit glc_h_values s16_stereo_env configured_world 1 0 4)
       = Some EINVAL
   \<and> write_lock_held (strm leaked_world 0)
   \<and> audio_hook_alsa_i s16_stereo_env leaked_world 1 0x6000 4 = None
   \<and> write_lock_held (strm refused_leaked_world 0)
   \<and> map_option fst (audio_hook_alsa_i s16_stereo_env refused_leaked_world 1 0x6000 4) = Some EINVAL
   \<and> \<not> write_lock_held (strm (snd (the (audio_hook_alsa_i s16_stereo_env refused_leaked_world 1 0x6000 4))) 0)"
proof (intro conjI)
  show "\<not> write_lock_held (strm configured_world 0)"
    by (simp add: configured_world_eq strm_def write_lock_held_def)
  show "map_option fst (audio_hook_alsa_mmap_commit glc_h_values s16_stereo_env configured_world 1 0 4)
       = Some EINVAL"
    by (simp add: commit_configured)
  show "write_lock_held (strm leaked_world 0)"
    by (simp add: leaked_world_def commit_configured)
       (simp add: configured_world_eq strm_def upd_def write_lock_held_def SND_PCM_ASYNC_def)
  show "audio_hook_alsa_i s16_stereo_env leaked_world 1 0x6000 4 = None"
    by (simp add: leaked_world_def commit_configured)
       (simp add: configured_world_eq audio_hook_alsa_i_def audio_hook_get_stream_alsa_def
          audio_hook_lock_write_def strm_def upd_def glc_log_add_def AUDIO_HOOK_CAPTURING_def
          SND_PCM_ASYNC_def)
  show "write_lock_held (strm refused_leaked_world 0)"
    by (simp add: refused_leaked_world_def commit_refused)
       (simp add: refused_world_eq strm_def upd_def write_lock_held_def SND_PCM_ASYNC_def)
  show "map_option fst (audio_hook_alsa_i s16_stereo_env refused_leaked_world 1 0x6000 4) = Some EINVAL"
    by (simp add: refused_leaked_world_def commit_refused)
       (simp add: refused_world_eq audio_hook_alsa_i_def audio_hook_get_stream_alsa_def
          strm_def upd_def glc_log_add_def AUDIO_HOOK_CAPTURING_def)
  show "\<not> write_lock_held (strm (snd (the (audio_hook_alsa_i s16_stereo_env refused_leaked_world 1 0x6000 4))) 0)"
    by (simp add: refused_leaked_world_def commit_refused)
       (simp add: refused_world_eq audio_hook_alsa_i_def audio_hook_get_stream_alsa_def
          audio_hook_unlock_write_def write_lock_held_def
          strm_def upd_def glc_log_add_def AUDIO_HOOK_CAPTURING_def SND_PCM_ASYNC_def)
qed

text \<open>
  Every other return of the entry points leaves the write lock free: the one above is the
  only path that keeps it.
\<close>

lemma unlock_frees:
  "i < length (stream (hook w)) \<Longrightarrow>
     \<not> write_lock_held (strm (snd (audio_hook_unlock_write w i)) i)"
  by (simp add: audio_hook_unlock_write_def write_lock_held_def)

lemma lock_write_facts:
  "audio_hook_lock_write w i = Some (r, w') \<Longrightarrow>
     r = 0 \<and> length (stream (hook w')) = length (stream (hook w))"
  by (auto simp: audio_hook_lock_write_def split: if_splits)

lemma wait_length:
  "audio_hook_wait_for_thread w i = Some (r, w') \<Longrightarrow>
     length (stream (hook w')) = length (stream (hook w))"
  by (auto simp: audio_hook_wait_for_thread_def split: if_splits
           dest!: wait_capture_ready_result)

lemma set_data_size_length [simp]:
  "length (stream (hook (snd (audio_hook_set_data_size e w i sz)))) = length (stream (hook w))"
  by (simp add: audio_hook_set_data_size_def Let_def)

lemma stream_init_length [simp]:
  "length (stream (hook (snd (audio_hook_stream_init w i)))) = length (stream (hook w))"
  by (simp add: audio_hook_stream_init_def glc_state_audio_new_def Let_def)

lemma mmap_commit_copy_length [simp]:
  "length (stream (hook (mmap_commit_copy K e w i ars off frms))) = length (stream (hook w))"
  by (simp add: mmap_commit_copy_def Let_def)

lemma hw_params_err_released:
  "hw_params_err w i ret = Some (r, w') \<Longrightarrow> i < length (stream (hook w)) \<longrightarrow>
     \<not> write_lock_held (strm w' i)"
  by (auto simp: hw_params_err_def unlock_frees)

lemma hw_params_done_released:
  "hw_params_done w i = Some (r, w') \<Longrightarrow> i < length (stream (hook w)) \<longrightarrow>
     \<not> write_lock_held (strm w' i)"
  by (auto simp: hw_params_done_def Let_def case_prod_beta unlock_frees
           split: if_splits dest!: hw_params_err_released)

lemma hw_params_releases_lock:
  assumes "audio_hook_get_stream_alsa w p = (w1, i)"
    and "audio_hook_alsa_hw_params K w p params = Some (r, w')"
  shows "\<not> write_lock_held (strm w' i)"
proof -
  have len1: "i < length (stream (hook w1))"
    using get_stream_props(1) [OF assms(1)] .
  obtain r2 w2 where lk: "audio_hook_lock_write w1 i = Some (r2, w2)"
    using assms by (auto simp: audio_hook_alsa_hw_params_def split: option.splits)
  have len2: "i < length (stream (hook w2))" and r2: "r2 = 0"
    using lock_write_facts [OF lk] len1 by simp_all
  show ?thesis
    using assms(2) len2
    by (auto simp: audio_hook_alsa_hw_params_def assms(1) lk r2 Let_def
             split: if_splits dest!: hw_params_err_released hw_params_done_released)
qed

lemma writei_releases_lock:
  assumes "hook_flags (hook w) AND AUDIO_HOOK_CAPTURING \<noteq> 0"
    and "audio_hook_get_stream_alsa w p = (w1, i)"
    and "audio_hook_alsa_i e w p buffer sz = Some (r, w')"
  shows "\<not> write_lock_held (strm w' i)"
proof -
  have len1: "i < length (stream (hook w1))"
    using get_stream_props(1) [OF assms(2)] .
  show ?thesis
    using assms(1,3) len1
    by (auto simp: audio_hook_alsa_i_def assms(2) Let_def case_prod_beta unlock_frees
             split: if_splits option.splits
             dest!: lock_write_facts wait_length)
qed

lemma writen_releases_lock:
  assumes "hook_flags (hook w) AND AUDIO_HOOK_CAPTURING \<noteq> 0"
    and "audio_hook_get_stream_alsa w p = (w1, i)"
    and "audio_hook_alsa_n K e w p bufs sz = Some (r, w')"
  shows "\<not> write_lock_held (strm w' i)"
proof -
  have len1: "i < length (stream (hook w1))"
    using get_stream_props(1) [OF assms(2)] .
  show ?thesis
    using assms(1,3) len1
    by (auto simp: audio_hook_alsa_n_def assms(2) Let_def case_prod_beta unlock_frees
             split: if_splits option.splits
             dest!: lock_write_facts wait_length)
qed

lemma mmap_begin_releases_lock:
  assumes "hook_flags (hook w) AND AUDIO_HOOK_CAPTURING \<noteq> 0"
    and "audio_hook_get_stream_alsa w p = (w1, i)"
    and "audio_hook_alsa_mmap_begin w p ars off frms = Some (r, w')"
  shows "\<not> write_lock_held (strm w' i)"
proof -
  have len1: "i < length (stream (hook w1))"
    using get_stream_props(1) [OF assms(2)] .
  show ?thesis
    using assms(1,3) len1
    by (auto simp: audio_hook_alsa_mmap_begin_def assms(2) Let_def case_prod_beta unlock_frees
             split: if_splits option.splits
             dest!: lock_write_facts)
qed

lemma mmap_commit_releases_lock:
  assumes "hook_flags (hook w) AND AUDIO_HOOK_CAPTURING \<noteq> 0"
    and "audio_hook_get_stream_alsa w p = (w1, i)"
    and "audio_hook_alsa_mmap_commit K e w p off frms = Some (r, w')"
    and "channels (strm w1 i) = 0 \<or> mmap_areas (strm w1 i) \<noteq> None"
  shows "\<not> write_lock_held (strm w' i)"
proof -
  have len1: "i < length (stream (hook w1))"
    using get_stream_props(1) [OF assms(2)] .
  obtain r2 w2 where lk: "audio_hook_lock_write w1 i = Some (r2, w2)"
    using assms by (auto simp: audio_hook_alsa_mmap_commit_def split: option.splits)
  have len2: "i < length (stream (hook w2))" and r2: "r2 = 0"
    using lock_write_facts [OF lk] len1 by simp_all
  have same: "channels (strm w2 i) = channels (strm w1 i)"
      "mmap_areas (strm w2 i) = mmap_areas (strm w1 i)"
    using lk len1 by (auto simp: audio_hook_lock_write_def split: if_splits)
  show ?thesis
    using assms(1,3,4) len2 same
    by (auto simp: audio_hook_alsa_mmap_commit_def assms(2) lk r2 Let_def case_prod_beta
               unlock_frees
             split: if_splits option.splits
             dest!: wait_length)
qed

subsection \<open>Complex to interleaved conversion\<close>

text \<open>
  C1 fails on the code for more than one channel: the conversion starts channel \<open>c\<close> at
  \<open>c\<close> frames, not \<open>c\<close> samples, into the output. For two channels of two 16-bit
  frames, left \<open>A0 A1, A2 A3\<close> and right \<open>B0 B1, B2 B3\<close>, the eight bytes of the
  payload at \<open>0x3000\<close> should read \<open>A0 A1 B0 B1 A2 A3 B2 B3\<close>. The code leaves
  \<open>A0 A1 00 00 B0 B1 00 00\<close> there and writes \<open>B2 B3\<close> behind the payload.
\<close>

theorem complex_to_interleaved_misplaces_second_channel:
  "map (snd (audio_hook_complex_to_interleaved s16_stereo_env two_frames_mem stereo_stream
               two_areas 0 2 0x3000))
       [0x3000, 0x3001, 0x3002, 0x3003, 0x3004, 0x3005, 0x3006, 0x3007, 0x3008, 0x3009]
   = [0xA0, 0xA1, 0, 0, 0xB0, 0xB1, 0, 0, 0xB2, 0xB3]"
  by (simp add: audio_hook_complex_to_interleaved_def s16_stereo_env_def two_frames_mem_def
      stereo_stream_def two_areas_def new_stream_def zero_stream_def
      audio_hook_alsa_mmap_pos_def memcpy_def upt2)

text \<open>
  \<^verbatim>\<open>audio_hook_alsa_mmap_commit\<close> does not reach the conversion for a stream
  configured with complex access: \<^verbatim>\<open>audio_hook_alsa_hw_params\<close> sets
  \<^verbatim>\<open>GLC_AUDIO_INTERLEAVED\<close> together with \<^verbatim>\<open>complex\<close>, and the flag is tested
  first. For the two frames above the payload handed to the capture thread is the first
  eight bytes of the left channel's area, \<open>A0 A1 A2 A3 00 00 00 00\<close>.
\<close>

lemma complex_world_eq:
  "complex_world = \<lparr>glc_log =
    [(GLC_INFORMATION, ''starting capturing''),
     (GLC_DEBUG, ''%p: creating/updating configuration for stream %d''),
     (GLC_DEBUG, ''%p: %d channels, rate %d, flags 0x%02x''),
     (GLC_INFORMATION, ''%p: initializing stream %d'')],
    audio_count = 1, written = [AUDIO_FORMAT 1 5 44100 2], mem = two_frames_mem,
    hook =
      \<lparr>hook_flags = 1, to_buf = 0x5000, started = True,
         stream =
           [\<lparr>state_audio = 1, audio_i = 1, pcm = 1, mode = 0,
               mmap_areas = None, frames = 0, offset = 0, channels = 2,
               rate = 44100, flags = 5, complex = True, fmt = True,
               initialized = True, packet = 0x5000, capture_thread = 1,
               capture_finished = 0, capture_running = True,
               capture_empty = 1, capture_full = 0, write_mutex = False,
               write_spinlock = False, capture_ready = False,
               capture_data = 0, capture_size = 0, capture_data_size = 0,
               capture_time = 0\<rparr>]\<rparr>\<rparr>"
  by (simp add: complex_world_def capturing_world_eq audio_hook_alsa_hw_params_def
      audio_hook_get_stream_alsa_def audio_hook_lock_write_def audio_hook_unlock_write_def
      hw_params_done_def hw_params_err_def audio_hook_stream_init_def glc_state_audio_new_def
      new_stream_def zero_stream_def s16_stereo_params_def glc_h_values_def pcm_fmt_to_glc_fmt_def
      strm_def upd_def glc_log_add_def NULL_def SND_PCM_ASYNC_def Let_def)

lemma complex_begin:
  "audio_hook_alsa_mmap_begin complex_world 1 (Some two_areas) 0 2 =
     Some (0, upd 0 (\<lambda>s. s\<lparr>mmap_areas := Some two_areas, frames := 2, offset := 0\<rparr>) complex_world)"
  by (simp add: complex_world_eq audio_hook_alsa_mmap_begin_def audio_hook_get_stream_alsa_def
      audio_hook_lock_write_def audio_hook_unlock_write_def strm_def upd_def
      AUDIO_HOOK_CAPTURING_def SND_PCM_ASYNC_def Let_def)

lemma complex_commit_copies_first_area:
  "complex (strm complex_world 0)
   \<and> capture_full (strm complex_committed_world 0) = 1
   \<and> capture_data (strm complex_committed_world 0) = 0x4000
   \<and> capture_size (strm complex_committed_world 0) = 8
   \<and> map (mem complex_committed_world)
        [0x4000, 0x4001, 0x4002, 0x4003, 0x4004, 0x4005, 0x4006, 0x4007]
      = [0xA0, 0xA1, 0xA2, 0xA3, 0, 0, 0, 0]"
  by (simp add: complex_committed_world_def complex_begin)
     (simp add: complex_world_eq audio_hook_alsa_mmap_commit_def audio_hook_get_stream_alsa_def
      audio_hook_lock_write_def audio_hook_unlock_write_def audio_hook_wait_for_thread_def
      audio_hook_set_data_size_def mmap_commit_copy_def audio_hook_alsa_mmap_pos_def
      memcpy_def two_areas_def two_frames_mem_def s16_stereo_env_def glc_h_values_def
      strm_def upd_def AUDIO_HOOK_CAPTURING_def SND_PCM_ASYNC_def NULL_def Let_def)

text \<open>
  The conversion is reached when a stream configured for complex access is configured
  again with a request that is refused: \<^verbatim>\<open>audio_hook_alsa_hw_params\<close> has then
  reset the flags, \<^verbatim>\<open>complex\<close> and \<^verbatim>\<open>initialized\<close> are still set, and the commit
  of the two frames above hands over the misplaced payload, ten bytes written into a
  scratch buffer of eight.
\<close>

lemma reconfigured_world_eq:
  "reconfigured_world = glc_log_add GLC_ERROR ''%p: can't extract hardware configuration: %s (%d)''
     (glc_log_add GLC_ERROR ''%p: unsupported access mode 0x%02x''
       (glc_log_add GLC_DEBUG ''%p: creating/updating configuration for stream %d''
          (upd 0 (\<lambda>s. s\<lparr>flags := 4\<rparr>) complex_world)))"
  by (simp add: reconfigured_world_def complex_world_eq audio_hook_alsa_hw_params_def
      audio_hook_get_stream_alsa_def audio_hook_lock_write_def audio_hook_unlock_write_def
      hw_params_err_def s16_stereo_params_def glc_h_values_def pcm_fmt_to_glc_fmt_def
      strm_def upd_def glc_log_add_def SND_PCM_ASYNC_def Let_def)

lemma reconfigured_begin:
  "audio_hook_alsa_mmap_begin reconfigured_world 1 (Some two_areas) 0 2 =
     Some (0, upd 0 (\<lambda>s. s\<lparr>mmap_areas := Some two_areas, frames := 2, offset := 0\<rparr>)
                reconfigured_world)"
  by (simp add: reconfigured_world_eq complex_world_eq audio_hook_alsa_mmap_begin_def
      audio_hook_get_stream_alsa_def
      audio_hook_lock_write_def audio_hook_unlock_write_def strm_def upd_def glc_log_add_def
      AUDIO_HOOK_CAPTURING_def SND_PCM_ASYNC_def Let_def)

lemma conversion_reached_after_refused_reconfiguration:
  "map_option fst (audio_hook_alsa_hw_params glc_h_values complex_world 1
       (s16_stereo_params SND_PCM_ACCESS_MMAP_NONINTERLEAVED)) = Some ENOTSUP
   \<and> complex (strm reconfigured_world 0)
   \<and> flags (strm reconfigured_world 0) AND GLC_AUDIO_INTERLEAVED glc_h_values = 0
   \<and> capture_data (strm reconfigured_committed_world 0) = 0x4000
   \<and> capture_size (strm reconfigured_committed_world 0) = 8
   \<and> map (mem reconfigured_committed_world)
        [0x4000, 0x4001, 0x4002, 0x4003, 0x4004, 0x4005, 0x4006, 0x4007, 0x4008, 0x4009]
      = [0xA0, 0xA1, 0, 0, 0xB0, 0xB1, 0, 0, 0xB2, 0xB3]"
proof (intro conjI)
  show "map_option fst (audio_hook_alsa_hw_params glc_h_values complex_world 1
       (s16_stereo_params SND_PCM_ACCESS_MMAP_NONINTERLEAVED)) = Some ENOTSUP"
    by (simp add: complex_world_eq audio_hook_alsa_hw_params_def
      audio_hook_get_stream_alsa_def audio_hook_lock_write_def audio_hook_unlock_write_def
      hw_params_err_def s16_stereo_params_def glc_h_values_def pcm_fmt_to_glc_fmt_def
      strm_def upd_def glc_log_add_def SND_PCM_ASYNC_def Let_def)
  show "complex (strm reconfigured_world 0)"
    by (simp add: reconfigured_world_eq complex_world_eq strm_def upd_def)
  show "flags (strm reconfigured_world 0) AND GLC_AUDIO_INTERLEAVED glc_h_values = 0"
    by (simp add: reconfigured_world_eq complex_world_eq strm_def upd_def glc_h_values_def)
  show "capture_data (strm reconfigured_committed_world 0) = 0x4000"
    by (simp add: reconfigured_committed_world_def reconfigured_begin)
       (simp add: reconfigured_world_eq complex_world_eq audio_hook_alsa_mmap_commit_def
          audio_hook_get_stream_alsa_def audio_hook_lock_write_def audio_hook_unlock_write_def
          audio_hook_wait_for_thread_def audio_hook_set_data_size_def mmap_commit_copy_def
          s16_stereo_env_def glc_h_values_def strm_def upd_def glc_log_add_def
          AUDIO_HOOK_CAPTURING_def SND_PCM_ASYNC_def NULL_def Let_def)
  show "capture_size (strm reconfigured_committed_world 0) = 8"
    by (simp add: reconfigured_committed_world_def reconfigured_begin)
       (simp add: reconfigured_world_eq complex_world_eq audio_hook_alsa_mmap_commit_def
          audio_hook_get_stream_alsa_def audio_hook_lock_write_def audio_hook_unlock_write_def
          audio_hook_wait_for_thread_def audio_hook_set_data_size_def mmap_commit_copy_def
          s16_stereo_env_def glc_h_values_def strm_def upd_def glc_log_add_def
          AUDIO_HOOK_CAPTURING_def SND_PCM_ASYNC_def NULL_def Let_def)
  show "map (mem reconfigured_committed_world)
        [0x4000, 0x4001, 0x4002, 0x4003, 0x4004, 0x4005, 0x4006, 0x4007, 0x4008, 0x4009]
      = [0xA0, 0xA1, 0, 0, 0xB0, 0xB1, 0, 0, 0xB2, 0xB3]"
    by (simp add: reconfigured_committed_world_def reconfigured_begin)
       (simp add: reconfigured_world_eq complex_world_eq audio_hook_alsa_mmap_commit_def
          audio_hook_get_stream_alsa_def audio_hook_lock_write_def audio_hook_unlock_write_def
          audio_hook_wait_for_thread_def audio_hook_set_data_size_def mmap_commit_copy_def
          audio_hook_complex_to_interleaved_def audio_hook_alsa_mmap_pos_def memcpy_def upt2
          two_areas_def two_frames_mem_def
          s16_stereo_env_def glc_h_values_def strm_def upd_def glc_log_add_def
          AUDIO_HOOK_CAPTURING_def SND_PCM_ASYNC_def NULL_def Let_def)
qed

end
